theory Spec2Isabelle
  imports Complex_Main "HOL-Library.Log_Nat" "HOL-Library.Sublist"
begin

section \<open>Python floats\<close>

text \<open>
  A Python \<^verbatim>\<open>float\<close> is an IEEE-754 binary64 number.  A finite float is
  represented by its exact rational value; every arithmetic operation computes the
  exact result and rounds it to the nearest binary64 number, ties to even
  (53 significant bits; \<open>quantum x\<close> is the exponent of the unit in the last place of
  the binade of \<open>x\<close>, at least \<open>-1074\<close>).  Overflow to infinity
  is not represented: all quantities below are far inside the finite range.
  A float literal such as \<^verbatim>\<open>0.2\<close> denotes \<open>round_double (2/10)\<close>.
\<close>

definition round_half_even :: "rat \<Rightarrow> int" where
  "round_half_even x =
     (let f = \<lfloor>x\<rfloor>; r = x - of_int f
      in if r < 1/2 then f else if 1/2 < r then f + 1 else if even f then f else f + 1)"

definition ilog2 :: "rat \<Rightarrow> int" where
  "ilog2 x = (case quotient_of \<bar>x\<bar> of (a, b) \<Rightarrow>
      (let e0 = bitlen a - bitlen b in if 2 powi e0 \<le> \<bar>x\<bar> then e0 else e0 - 1))"

definition quantum :: "rat \<Rightarrow> int" where
  "quantum x = max (ilog2 x - 52) (- 1074)"

definition round_double :: "rat \<Rightarrow> rat" where
  "round_double x =
     (if x = 0 then 0
      else of_int (round_half_even (x / 2 powi quantum x)) * 2 powi quantum x)"

definition fadd :: "rat \<Rightarrow> rat \<Rightarrow> rat" where
  "fadd x y = round_double (x + y)"

definition fsub :: "rat \<Rightarrow> rat \<Rightarrow> rat" where
  "fsub x y = round_double (x - y)"

definition fmul :: "rat \<Rightarrow> rat \<Rightarrow> rat" where
  "fmul x y = round_double (x * y)"

definition fdiv :: "rat \<Rightarrow> rat \<Rightarrow> rat" where
  "fdiv x y = round_double (x / y)"

section \<open>Context records (app/models/context.py)\<close>

datatype json =
    JNull
  | JBool bool
  | JInt int
  | JFloat rat
  | JStr string
  | JList "json list"
  | JDict "(string \<times> json) list"

datatype ContextType = TEMPORAL | SPATIAL | SITUATIONAL | META

datatype MemoryTier = LONG_TERM | SHORT_TERM | EPHEMERAL

datatype DriftStatus = STABLE | DRIFTING | CONFLICTING | STALE

text \<open>
  A row of table \<^verbatim>\<open>contexts\<close>.  UUIDs are natural numbers, instants are integer
  microsecond counts.  The fields \<^verbatim>\<open>id\<close>, \<^verbatim>\<open>value\<close> and \<^verbatim>\<open>interpretation\<close> of the
  source are \<open>ctx_id\<close>, \<open>ctx_value\<close> and \<open>ctx_interpretation\<close> here.
\<close>

record Context =
  ctx_id :: nat
  user_id :: nat
  context_type :: ContextType
  memory_tier :: MemoryTier
  key :: string
  ctx_value :: json
  ctx_interpretation :: "json option"
  confidence :: rat
  source :: string
  source_details :: "json option"
  drift_status :: DriftStatus
  last_confirmed_at :: "int option"
  correction_count :: int
  expires_at :: "int option"
  is_active :: bool
  session_id :: "string option"
  created_at :: int
  updated_at :: int
  deleted_at :: "int option"

text \<open>\<^verbatim>\<open>Context.decay_confidence\<close>, \<^verbatim>\<open>Context.confirm\<close> and
  \<^verbatim>\<open>Context.record_correction\<close>; \<open>now\<close> is the reading of the clock.\<close>

definition decay_confidence :: "rat \<Rightarrow> Context \<Rightarrow> Context" where
  "decay_confidence factor c =
     c\<lparr>confidence := max (round_double (1/10)) (fmul (confidence c) factor)\<rparr>"

definition confirm :: "int \<Rightarrow> Context \<Rightarrow> Context" where
  "confirm now c =
     c\<lparr>last_confirmed_at := Some now,
       confidence := min 1 (fadd (confidence c) (round_double (2/10))),
       drift_status := STABLE\<rparr>"

definition record_correction :: "Context \<Rightarrow> Context" where
  "record_correction c =
     (let c1 = c\<lparr>correction_count := correction_count c + 1\<rparr>;
          c2 = c1\<lparr>confidence := max 0 (fsub (confidence c1) (round_double (2/10)))\<rparr>
      in if correction_count c2 \<ge> 3 then c2\<lparr>drift_status := CONFLICTING\<rparr> else c2)"

section \<open>Drift detection (app/engines/drift.py)\<close>

datatype DriftType = STALENESS | CONFLICT | CORRECTION_PATTERN | BEHAVIORAL_MISMATCH

record DriftSignal =
  drift_type :: DriftType
  sig_context_id :: nat
  context_key :: string
  severity :: rat
  description :: string
  detected_at :: int
  recommended_action :: string

definition LOW_CONFIDENCE_THRESHOLD :: rat where
  "LOW_CONFIDENCE_THRESHOLD = round_double (4/10)"

definition CRITICAL_CONFIDENCE_THRESHOLD :: rat where
  "CRITICAL_CONFIDENCE_THRESHOLD = round_double (2/10)"

text \<open>Decimal digits of a natural number, and the format \<^verbatim>\<open>{x:.2f}\<close>.\<close>

definition digit_char :: "nat \<Rightarrow> char" where
  "digit_char n = ''0123456789'' ! (n mod 10)"

fun str_nat :: "nat \<Rightarrow> string" where
  "str_nat n = (if n < 10 then [digit_char n] else str_nat (n div 10) @ [digit_char n])"

definition str_int :: "int \<Rightarrow> string" where
  "str_int i = (if i < 0 then ''-'' @ str_nat (nat (- i)) else str_nat (nat i))"

definition format_2f :: "rat \<Rightarrow> string" where
  "format_2f x =
     (let n = round_half_even (\<bar>x\<bar> * 100);
          body = str_nat (nat (n div 100)) @ ''.'' @
                 [digit_char (nat (n mod 100 div 10)), digit_char (nat (n mod 10))]
      in if x < 0 \<and> n \<noteq> 0 then ''-'' @ body else body)"

definition check_confidence :: "int \<Rightarrow> Context \<Rightarrow> DriftSignal option" where
  "check_confidence now c =
     (if confidence c \<ge> LOW_CONFIDENCE_THRESHOLD then None
      else Some \<lparr>
        drift_type = STALENESS,
        sig_context_id = ctx_id c,
        context_key = key c,
        severity = fsub 1 (fdiv (confidence c) LOW_CONFIDENCE_THRESHOLD),
        description = ''Confidence is low ('' @ format_2f (confidence c) @ '')'',
        detected_at = now,
        recommended_action =
          (if confidence c < CRITICAL_CONFIDENCE_THRESHOLD then ''refresh'' else ''monitor'')\<rparr>)"

definition check_corrections :: "int \<Rightarrow> int \<Rightarrow> Context \<Rightarrow> DriftSignal option" where
  "check_corrections correction_threshold now c =
     (if correction_count c < correction_threshold then None
      else Some \<lparr>
        drift_type = CORRECTION_PATTERN,
        sig_context_id = ctx_id c,
        context_key = key c,
        severity = min 1 (fdiv (of_int (correction_count c)) (of_int (correction_threshold * 2))),
        description = ''Context has been corrected '' @ str_int (correction_count c) @ '' times'',
        detected_at = now,
        recommended_action = ''confirm_with_user''\<rparr>)"

section \<open>Context memory service (app/services/context_memory.py)\<close>

text \<open>A row of table \<^verbatim>\<open>context_versions\<close> (its own id and timestamps are left out).\<close>

record context_version =
  context_id :: nat
  version :: int
  ver_value :: json
  ver_interpretation :: "json option"
  ver_confidence :: rat
  changed_by :: string
  change_reason :: "string option"
  previous_value :: "json option"

record db =
  contexts :: "Context list"
  versions :: "context_version list"

datatype error =
    ValueError string
  | MultipleResultsFound
  | IntegrityError
  | ZoneInfoNotFoundError string
  | TypeError
  | AttributeError
  | KeyError
  | IndexError

definition empty_db :: db where
  "empty_db = \<lparr>contexts = [], versions = []\<rparr>"

text \<open>SQLAlchemy's \<^verbatim>\<open>scalar_one_or_none\<close>: no row, the one row, or an exception.\<close>

fun scalar_one_or_none :: "'a list \<Rightarrow> error + 'a option" where
  "scalar_one_or_none [] = Inr None"
| "scalar_one_or_none [x] = Inr (Some x)"
| "scalar_one_or_none (x # y # zs) = Inl MultipleResultsFound"

definition get_by_id :: "db \<Rightarrow> nat \<Rightarrow> error + Context option" where
  "get_by_id d cid = scalar_one_or_none (filter (\<lambda>c. ctx_id c = cid) (contexts d))"

text \<open>The rows selected by \<^verbatim>\<open>_get_by_key\<close>: the active records of a user, type and key.\<close>

definition active_records :: "db \<Rightarrow> nat \<Rightarrow> ContextType \<Rightarrow> string \<Rightarrow> Context list" where
  "active_records d uid ct k =
     filter (\<lambda>c. user_id c = uid \<and> context_type c = ct \<and> key c = k \<and> is_active c)
       (contexts d)"

definition get_by_key :: "db \<Rightarrow> nat \<Rightarrow> ContextType \<Rightarrow> string \<Rightarrow> error + Context option" where
  "get_by_key d uid ct k = scalar_one_or_none (active_records d uid ct k)"

text \<open>\<^verbatim>\<open>select(func.max(version)) ... scalar() or 0\<close>.\<close>

definition get_latest_version_number :: "db \<Rightarrow> nat \<Rightarrow> int" where
  "get_latest_version_number d cid =
     (case map version (filter (\<lambda>v. context_id v = cid) (versions d)) of
        [] \<Rightarrow> 0
      | n # ns \<Rightarrow> fold max ns n)"

definition create_version ::
  "db \<Rightarrow> nat \<Rightarrow> int \<Rightarrow> json \<Rightarrow> json option \<Rightarrow> rat \<Rightarrow> string \<Rightarrow> string option \<Rightarrow> json option \<Rightarrow> db"
where
  "create_version d cid n v interp conf who reason prev =
     d\<lparr>versions := versions d @
        [\<lparr>context_id = cid, version = n, ver_value = v, ver_interpretation = interp,
          ver_confidence = conf, changed_by = who, change_reason = reason,
          previous_value = prev\<rparr>]\<rparr>"

text \<open>Flushing a mutated ORM object writes the row with its primary key.\<close>

definition flush_context :: "db \<Rightarrow> Context \<Rightarrow> db" where
  "flush_context d c =
     d\<lparr>contexts := map (\<lambda>r. if ctx_id r = ctx_id c then c else r) (contexts d)\<rparr>"

definition update ::
  "db \<Rightarrow> int \<Rightarrow> nat \<Rightarrow> json option \<Rightarrow> rat option \<Rightarrow> string \<Rightarrow> json option \<Rightarrow> string option
     \<Rightarrow> error + (db \<times> Context)"
where
  "update d now cid val conf src interp reason =
     (case get_by_id d cid of
        Inl e \<Rightarrow> Inl e
      | Inr None \<Rightarrow> Inl (ValueError ''Context not found'')
      | Inr (Some c) \<Rightarrow>
          (let previous = ctx_value c;
               current_version = get_latest_version_number d cid;
               c1 = (case val of None \<Rightarrow> c | Some v \<Rightarrow> c\<lparr>ctx_value := v\<rparr>);
               c2 = (case conf of None \<Rightarrow> c1 | Some x \<Rightarrow> c1\<lparr>confidence := x\<rparr>);
               c3 = (case interp of None \<Rightarrow> c2 | Some i \<Rightarrow> c2\<lparr>ctx_interpretation := Some i\<rparr>);
               c4 = c3\<lparr>source := src, updated_at := now\<rparr>;
               d1 = flush_context d c4;
               d2 = create_version d1 (ctx_id c4) (current_version + 1) (ctx_value c4)
                      (ctx_interpretation c4) (confidence c4) src
                      (Some (case reason of None \<Rightarrow> ''Updated''
                             | Some r \<Rightarrow> if r = [] then ''Updated'' else r))
                      (Some previous)
           in Inr (d2, c4)))"

definition EPHEMERAL_CONTEXT_TTL_SECONDS :: int where
  "EPHEMERAL_CONTEXT_TTL_SECONDS = 3600"

text \<open>
  \<^verbatim>\<open>store\<close>.  \<open>new_id\<close> is the UUID drawn for a new row; a row whose primary key
  exists already is refused by the database.
\<close>

definition store ::
  "db \<Rightarrow> int \<Rightarrow> nat \<Rightarrow> nat \<Rightarrow> ContextType \<Rightarrow> string \<Rightarrow> json \<Rightarrow> MemoryTier \<Rightarrow> rat \<Rightarrow> string
     \<Rightarrow> json option \<Rightarrow> json option \<Rightarrow> string option \<Rightarrow> int option
     \<Rightarrow> error + (db \<times> Context)"
where
  "store d now new_id uid ct k v tier conf src src_details interp sid ttl_seconds =
     (case get_by_key d uid ct k of
        Inl e \<Rightarrow> Inl e
      | Inr (Some existing) \<Rightarrow> update d now (ctx_id existing) (Some v) (Some conf) src interp None
      | Inr None \<Rightarrow>
          (let expires =
                 (if tier = EPHEMERAL
                  then (let ttl = (case ttl_seconds of None \<Rightarrow> EPHEMERAL_CONTEXT_TTL_SECONDS
                                   | Some t \<Rightarrow> if t = 0 then EPHEMERAL_CONTEXT_TTL_SECONDS else t)
                        in Some (now + ttl * 1000000))
                  else None);
               c = \<lparr>ctx_id = new_id, user_id = uid, context_type = ct, memory_tier = tier,
                    key = k, ctx_value = v, ctx_interpretation = interp, confidence = conf,
                    source = src, source_details = src_details, drift_status = STABLE,
                    last_confirmed_at = None, correction_count = 0, expires_at = expires,
                    is_active = True, session_id = sid, created_at = now, updated_at = now,
                    deleted_at = None\<rparr>
           in if new_id \<in> set (map ctx_id (contexts d)) then Inl IntegrityError
              else Inr (create_version (d\<lparr>contexts := contexts d @ [c]\<rparr>) new_id 1 v interp conf
                          src (Some ''Initial creation'') None, c)))"

text \<open>The service operations \<^verbatim>\<open>confirm\<close> and \<^verbatim>\<open>record_correction\<close>.\<close>

definition service_confirm :: "db \<Rightarrow> int \<Rightarrow> nat \<Rightarrow> error + (db \<times> Context)" where
  "service_confirm d now cid =
     (case get_by_id d cid of
        Inl e \<Rightarrow> Inl e
      | Inr None \<Rightarrow> Inl (ValueError ''Context not found'')
      | Inr (Some c) \<Rightarrow>
          (let c1 = (confirm now c)\<lparr>updated_at := now\<rparr>
           in Inr (flush_context d c1, c1)))"

definition service_record_correction ::
  "db \<Rightarrow> int \<Rightarrow> nat \<Rightarrow> json \<Rightarrow> string \<Rightarrow> error + (db \<times> Context)" where
  "service_record_correction d now cid new_value corrected_by =
     (case get_by_id d cid of
        Inl e \<Rightarrow> Inl e
      | Inr None \<Rightarrow> Inl (ValueError ''Context not found'')
      | Inr (Some c) \<Rightarrow>
          (let old_value = ctx_value c;
               c1 = (record_correction (c\<lparr>ctx_value := new_value\<rparr>))\<lparr>updated_at := now\<rparr>;
               d1 = flush_context d c1;
               current_version = get_latest_version_number d1 cid
           in Inr (create_version d1 (ctx_id c1) (current_version + 1) new_value
                     (ctx_interpretation c1) (confidence c1) corrected_by
                     (Some ''User correction'') (Some old_value), c1)))"

section \<open>Sequences of service calls\<close>

text \<open>
  A call of the service with its arguments, the clock reading and (for \<^verbatim>\<open>store\<close>)
  the UUID drawn.  Every exception of the four operations is raised before the
  operation has written anything, so a failed call leaves the database as it was.
\<close>

datatype memory_op =
    Store int nat nat ContextType string json MemoryTier rat string
      "json option" "json option" "string option" "int option"
  | Update int nat "json option" "rat option" string "json option" "string option"
  | Confirm int nat
  | RecordCorrection int nat json string

fun call :: "db \<Rightarrow> memory_op \<Rightarrow> error + (db \<times> Context)" where
  "call d (Store now new_id uid ct k v tier conf src sd interp sid ttl) =
     store d now new_id uid ct k v tier conf src sd interp sid ttl"
| "call d (Update now cid val conf src interp reason) =
     update d now cid val conf src interp reason"
| "call d (Confirm now cid) = service_confirm d now cid"
| "call d (RecordCorrection now cid v who) = service_record_correction d now cid v who"

definition apply_op :: "db \<Rightarrow> memory_op \<Rightarrow> db" where
  "apply_op d op = (case call d op of Inl e \<Rightarrow> d | Inr (d', c) \<Rightarrow> d')"

definition run_ops :: "db \<Rightarrow> memory_op list \<Rightarrow> db" where
  "run_ops d ops = foldl apply_op d ops"

fun is_Confirm :: "memory_op \<Rightarrow> bool" where
  "is_Confirm (Confirm now cid) = True"
| "is_Confirm op = False"

text \<open>The invariant relating corrections and drift status, for one record.\<close>

definition correction_invariant :: "Context \<Rightarrow> bool" where
  "correction_invariant c = (correction_count c \<ge> 3 \<longrightarrow> drift_status c = CONFLICTING)"

section \<open>The other writing operations of the service\<close>

text \<open>
  \<^verbatim>\<open>delete\<close>, \<^verbatim>\<open>apply_decay\<close>, \<^verbatim>\<open>rollback\<close> and \<^verbatim>\<open>cleanup_expired\<close>.  The UPDATE
  and DELETE statements act on every row that meets their condition; an UPDATE sets
  \<^verbatim>\<open>updated_at\<close> through the column's \<^verbatim>\<open>onupdate\<close>, and a deleted row takes its
  version rows with it (\<^verbatim>\<open>ondelete="CASCADE"\<close>).  The remaining operations of the
  service read, or write to the table of sessions only.
\<close>

definition CONTEXT_DECAY_HOURS :: int where
  "CONTEXT_DECAY_HOURS = 24"

definition service_delete :: "db \<Rightarrow> int \<Rightarrow> nat \<Rightarrow> bool \<Rightarrow> error + (db \<times> bool)" where
  "service_delete d now cid soft_delete =
     (let d1 =
            (if soft_delete
             then d\<lparr>contexts :=
                      map (\<lambda>r. if ctx_id r = cid
                                then r\<lparr>is_active := False, deleted_at := Some now,
                                       updated_at := now\<rparr>
                                else r) (contexts d)\<rparr>
             else d\<lparr>contexts := filter (\<lambda>r. ctx_id r \<noteq> cid) (contexts d),
                    versions := filter (\<lambda>v. context_id v \<noteq> cid) (versions d)\<rparr>)
      in case get_by_id d1 cid of
           Inl e \<Rightarrow> Inl e
         | Inr found \<Rightarrow> Inr (d1, True))"

definition apply_decay :: "db \<Rightarrow> int \<Rightarrow> nat option \<Rightarrow> rat \<Rightarrow> rat \<Rightarrow> db \<times> int" where
  "apply_decay d now uid decay_factor min_confidence =
     (let decay_threshold = now - CONTEXT_DECAY_HOURS * 3600000000;
          selected = (\<lambda>r. is_active r \<and> updated_at r < decay_threshold
                          \<and> confidence r > min_confidence \<and> memory_tier r \<noteq> LONG_TERM
                          \<and> (case uid of None \<Rightarrow> True | Some u \<Rightarrow> user_id r = u))
      in (d\<lparr>contexts :=
               map (\<lambda>r. if selected r
                         then r\<lparr>confidence := max (fmul (confidence r) decay_factor) min_confidence,
                                drift_status := STALE, updated_at := now\<rparr>
                         else r) (contexts d)\<rparr>,
          int (length (filter selected (contexts d)))))"

definition rollback :: "db \<Rightarrow> int \<Rightarrow> nat \<Rightarrow> int \<Rightarrow> string \<Rightarrow> error + (db \<times> Context)" where
  "rollback d now cid to_version rollback_by =
     (case scalar_one_or_none
             (filter (\<lambda>v. context_id v = cid \<and> version v = to_version) (versions d)) of
        Inl e \<Rightarrow> Inl e
      | Inr None \<Rightarrow> Inl (ValueError ''Version not found'')
      | Inr (Some target_version) \<Rightarrow>
          update d now cid (Some (ver_value target_version))
            (Some (ver_confidence target_version)) rollback_by
            (ver_interpretation target_version)
            (Some (''Rollback to version '' @ str_int to_version)))"

definition cleanup_expired :: "db \<Rightarrow> int \<Rightarrow> db \<times> int" where
  "cleanup_expired d now =
     (let expired = (\<lambda>r. memory_tier r = EPHEMERAL
                         \<and> (case expires_at r of None \<Rightarrow> False | Some t \<Rightarrow> t < now));
          gone = map ctx_id (filter expired (contexts d))
      in (d\<lparr>contexts := filter (\<lambda>r. \<not> expired r) (contexts d),
            versions := filter (\<lambda>v. context_id v \<notin> set gone) (versions d)\<rparr>,
          int (length (filter expired (contexts d)))))"

text \<open>
  A call of any writing operation of the service: one of the four above (\<open>Basic\<close>) or one
  of these.  A call that raises leaves the database as it was: the exception of
  \<^verbatim>\<open>delete\<close> comes after its statement, and the session is rolled back then.
\<close>

datatype service_op =
    Basic memory_op
  | Delete int nat bool
  | ApplyDecay int "nat option" rat rat
  | Rollback int nat int string
  | CleanupExpired int

fun apply_service_op :: "db \<Rightarrow> service_op \<Rightarrow> db" where
  "apply_service_op d (Basic op) = apply_op d op"
| "apply_service_op d (Delete now cid soft_delete) =
     (case service_delete d now cid soft_delete of Inl e \<Rightarrow> d | Inr (d', ok) \<Rightarrow> d')"
| "apply_service_op d (ApplyDecay now uid decay_factor min_confidence) =
     fst (apply_decay d now uid decay_factor min_confidence)"
| "apply_service_op d (Rollback now cid to_version rollback_by) =
     (case rollback d now cid to_version rollback_by of Inl e \<Rightarrow> d | Inr (d', c) \<Rightarrow> d')"
| "apply_service_op d (CleanupExpired now) = fst (cleanup_expired d now)"

definition run_service_ops :: "db \<Rightarrow> service_op list \<Rightarrow> db" where
  "run_service_ops d ops = foldl apply_service_op d ops"

text \<open>The operations that assign the drift status whatever the correction count is.\<close>

fun overwrites_drift_status :: "service_op \<Rightarrow> bool" where
  "overwrites_drift_status (Basic op) = is_Confirm op"
| "overwrites_drift_status (ApplyDecay now uid decay_factor min_confidence) = True"
| "overwrites_drift_status op = False"

section \<open>Example data\<close>

definition example_context :: Context where
  "example_context =
     \<lparr>ctx_id = 1, user_id = 7, context_type = SPATIAL, memory_tier = SHORT_TERM,
      key = ''location'', ctx_value = JDict [(''city'', JStr ''San Francisco'')],
      ctx_interpretation = None, confidence = round_double (9/10), source = ''inference'',
      source_details = None, drift_status = STABLE, last_confirmed_at = None,
      correction_count = 0, expires_at = None, is_active = True, session_id = None,
      created_at = 0, updated_at = 0, deleted_at = None\<rparr>"

definition example_db :: db where
  "example_db =
     \<lparr>contexts = [example_context],
      versions = [\<lparr>context_id = 1, version = 1,
                   ver_value = JDict [(''city'', JStr ''San Francisco'')],
                   ver_interpretation = None, ver_confidence = round_double (9/10),
                   changed_by = ''inference'', change_reason = Some ''Initial creation'',
                   previous_value = None\<rparr>]\<rparr>"

definition low_confidence_context :: Context where
  "low_confidence_context = example_context\<lparr>confidence := round_double (3/10)\<rparr>"

definition new_york :: json where
  "new_york = JDict [(''city'', JStr ''New York'')]"

definition san_francisco :: json where
  "san_francisco = JDict [(''city'', JStr ''San Francisco'')]"

definition two_stores :: "memory_op list" where
  "two_stores =
     [Store 0 1 7 SPATIAL ''location'' san_francisco SHORT_TERM (round_double (7/10))
        ''inference'' None None None None,
      Store 5 2 7 SPATIAL ''location'' new_york EPHEMERAL (round_double (9/10))
        ''user_explicit'' None None (Some ''s1'') (Some 60)]"

definition example_service_ops :: "service_op list" where
  "example_service_ops =
     [Basic (RecordCorrection 10 1 new_york ''user''),
      Basic (RecordCorrection 20 1 new_york ''user''),
      Basic (RecordCorrection 30 1 new_york ''user''),
      Rollback 40 1 1 ''user'',
      Basic (Store 50 2 8 TEMPORAL ''temporal_anchor'' JNull EPHEMERAL (round_double (5/10))
               ''system'' None None None (Some 1)),
      CleanupExpired 60000000,
      Delete 70000000 1 True]"

section \<open>Dates and times (the datetime and zoneinfo libraries)\<close>

text \<open>
  A \<^verbatim>\<open>tzinfo\<close> object is an object identity, a key, and a table of transitions: the
  UTC offset (in microseconds) before the first transition, and for every transition the
  UTC instant from which a new offset holds, in ascending order.  A \<^verbatim>\<open>datetime\<close> is a
  wall-clock time, counted in microseconds from 1970-01-01T00:00:00, with an optional
  \<^verbatim>\<open>tzinfo\<close>; it is naive without one.  A \<^verbatim>\<open>date\<close> is a day number counted from
  1970-01-01 and a \<^verbatim>\<open>timedelta\<close> a number of microseconds.  The bounds of the library
  (years 1 to 9999) and the attribute \<^verbatim>\<open>fold\<close> (it is 0 throughout) are not represented.
\<close>

record tzinfo =
  tz_id :: nat
  tz_key :: string
  base_offset :: int
  transitions :: "(int \<times> int) list"

record datetime =
  wall :: int
  tz :: "tzinfo option"

text \<open>The offset at a UTC instant (\<^verbatim>\<open>fromutc\<close>).\<close>

fun offset_at_utc :: "int \<Rightarrow> (int \<times> int) list \<Rightarrow> int \<Rightarrow> int" where
  "offset_at_utc off [] u = off"
| "offset_at_utc off ((t, off') # ts) u =
     (if t \<le> u then offset_at_utc off' ts u else off)"

text \<open>
  The offset of a wall-clock time (\<^verbatim>\<open>utcoffset\<close>): on the wall clock a transition
  takes effect at its instant shifted by the larger of the two offsets.
\<close>

fun offset_at_wall :: "int \<Rightarrow> (int \<times> int) list \<Rightarrow> int \<Rightarrow> int" where
  "offset_at_wall off [] w = off"
| "offset_at_wall off ((t, off') # ts) w =
     (if t + max off off' \<le> w then offset_at_wall off' ts w else off)"

definition utcoffset_utc :: "tzinfo \<Rightarrow> int \<Rightarrow> int" where
  "utcoffset_utc z u = offset_at_utc (base_offset z) (transitions z) u"

definition utcoffset_wall :: "tzinfo \<Rightarrow> int \<Rightarrow> int" where
  "utcoffset_wall z w = offset_at_wall (base_offset z) (transitions z) w"

definition fixed_zone :: "nat \<Rightarrow> string \<Rightarrow> int \<Rightarrow> tzinfo" where
  "fixed_zone i name off = \<lparr>tz_id = i, tz_key = name, base_offset = off, transitions = []\<rparr>"

text \<open>\<^verbatim>\<open>datetime.timezone.utc\<close>.\<close>

definition timezone_utc :: tzinfo where
  "timezone_utc = fixed_zone 0 ''UTC'' 0"

definition date_of :: "datetime \<Rightarrow> int" where
  "date_of dt = wall dt div 86400000000"

definition time_of :: "datetime \<Rightarrow> int" where
  "time_of dt = wall dt mod 86400000000"

definition hour_of :: "datetime \<Rightarrow> int" where
  "hour_of dt = wall dt mod 86400000000 div 3600000000"

definition minute_of :: "datetime \<Rightarrow> int" where
  "minute_of dt = wall dt mod 3600000000 div 60000000"

definition second_of :: "datetime \<Rightarrow> int" where
  "second_of dt = wall dt mod 60000000 div 1000000"

definition microsecond_of :: "datetime \<Rightarrow> int" where
  "microsecond_of dt = wall dt mod 1000000"

text \<open>Monday is 0; 1970-01-01 was a Thursday.\<close>

definition weekday_of :: "int \<Rightarrow> int" where
  "weekday_of d = (d + 3) mod 7"

text \<open>Year, month and day of a day number in the proleptic Gregorian calendar.\<close>

definition civil_from_days :: "int \<Rightarrow> int \<times> int \<times> int" where
  "civil_from_days d =
     (let z = d + 719468;
          era = z div 146097;
          doe = z - era * 146097;
          yoe = (doe - doe div 1460 + doe div 36524 - doe div 146096) div 365;
          doy = doe - (365 * yoe + yoe div 4 - yoe div 100);
          mp = (5 * doy + 2) div 153;
          dd = doy - (153 * mp + 2) div 5 + 1;
          mm = (if mp < 10 then mp + 3 else mp - 9);
          yy = yoe + era * 400 + (if mm \<le> 2 then 1 else 0)
      in (yy, mm, dd))"

definition year_of :: "int \<Rightarrow> int" where
  "year_of d = fst (civil_from_days d)"

definition month_of :: "int \<Rightarrow> int" where
  "month_of d = fst (snd (civil_from_days d))"

definition day_of :: "int \<Rightarrow> int" where
  "day_of d = snd (snd (civil_from_days d))"

definition utcoffset :: "datetime \<Rightarrow> int option" where
  "utcoffset dt = (case tz dt of None \<Rightarrow> None | Some z \<Rightarrow> Some (utcoffset_wall z (wall dt)))"

text \<open>
  \<^verbatim>\<open>astimezone\<close>; a naive datetime is taken to be in the system's zone \<open>local_tz\<close>.
\<close>

definition utc_instant :: "tzinfo \<Rightarrow> datetime \<Rightarrow> int" where
  "utc_instant local_tz dt =
     (case tz dt of
        None \<Rightarrow> wall dt - utcoffset_wall local_tz (wall dt)
      | Some z \<Rightarrow> wall dt - utcoffset_wall z (wall dt))"

definition astimezone :: "tzinfo \<Rightarrow> tzinfo \<Rightarrow> datetime \<Rightarrow> datetime" where
  "astimezone local_tz z dt =
     (let u = utc_instant local_tz dt in \<lparr>wall = u + utcoffset_utc z u, tz = Some z\<rparr>)"

definition replace_tzinfo :: "tzinfo \<Rightarrow> datetime \<Rightarrow> datetime" where
  "replace_tzinfo z dt = dt\<lparr>tz := Some z\<rparr>"

text \<open>\<^verbatim>\<open>datetime.now(tz)\<close> at the UTC instant \<open>now_utc\<close>.\<close>

definition datetime_now :: "int \<Rightarrow> tzinfo \<Rightarrow> datetime" where
  "datetime_now now_utc z = \<lparr>wall = now_utc + utcoffset_utc z now_utc, tz = Some z\<rparr>"

text \<open>\<^verbatim>\<open>dt + timedelta\<close> moves the wall clock and keeps the zone.\<close>

definition add_timedelta :: "datetime \<Rightarrow> int \<Rightarrow> datetime" where
  "add_timedelta dt td = dt\<lparr>wall := wall dt + td\<rparr>"

definition minutes :: "int \<Rightarrow> int" where
  "minutes n = n * 60000000"

text \<open>
  \<^verbatim>\<open>a - b\<close> of two datetimes: the difference of the wall clocks when both are naive
  or both carry the same zone, the difference of the UTC instants when the zones differ,
  and a \<^verbatim>\<open>TypeError\<close> when only one is naive.
\<close>

definition dt_sub :: "datetime \<Rightarrow> datetime \<Rightarrow> error + int" where
  "dt_sub a b =
     (case (tz a, tz b) of
        (None, None) \<Rightarrow> Inr (wall a - wall b)
      | (Some za, Some zb) \<Rightarrow>
          if tz_id za = tz_id zb then Inr (wall a - wall b)
          else Inr ((wall a - utcoffset_wall za (wall a)) - (wall b - utcoffset_wall zb (wall b)))
      | _ \<Rightarrow> Inl TypeError)"

text \<open>\<^verbatim>\<open>timedelta.total_seconds()\<close>: a float.\<close>

definition total_seconds :: "int \<Rightarrow> rat" where
  "total_seconds td = round_double (of_int td / 1000000)"

text \<open>\<^verbatim>\<open>ZoneInfo(key)\<close> in the time zone database \<open>zoneinfo\<close>.\<close>

definition ZoneInfo :: "(string \<Rightarrow> tzinfo option) \<Rightarrow> string \<Rightarrow> error + tzinfo" where
  "ZoneInfo zoneinfo k =
     (case zoneinfo k of None \<Rightarrow> Inl (ZoneInfoNotFoundError k) | Some z \<Rightarrow> Inr z)"

subsection \<open>Formatting\<close>

definition pad2 :: "int \<Rightarrow> string" where
  "pad2 n = (if n < 10 then ''0'' else []) @ str_nat (nat n)"

definition month_name :: "int \<Rightarrow> string" where
  "month_name m =
     [''January'', ''February'', ''March'', ''April'', ''May'', ''June'', ''July'',
      ''August'', ''September'', ''October'', ''November'', ''December''] ! nat (m - 1)"

definition day_name :: "int \<Rightarrow> string" where
  "day_name w =
     [''Monday'', ''Tuesday'', ''Wednesday'', ''Thursday'', ''Friday'', ''Saturday'',
      ''Sunday''] ! nat w"


definition strftime_IMp :: "datetime \<Rightarrow> string" where
  "strftime_IMp dt =
     pad2 (if hour_of dt mod 12 = 0 then 12 else hour_of dt mod 12) @ '':'' @
     pad2 (minute_of dt) @ (if hour_of dt < 12 then '' AM'' else '' PM'')"

definition strftime_Bd :: "int \<Rightarrow> string" where
  "strftime_Bd d = month_name (month_of d) @ '' '' @ pad2 (day_of d)"

definition strftime_ABd :: "int \<Rightarrow> string" where
  "strftime_ABd d = day_name (weekday_of d) @ '', '' @ strftime_Bd d"

definition strftime_ABdY :: "int \<Rightarrow> string" where
  "strftime_ABdY d = strftime_ABd d @ '', '' @ str_int (year_of d)"

definition strftime_A :: "datetime \<Rightarrow> string" where
  "strftime_A dt = day_name (weekday_of (date_of dt))"

definition strftime_z :: "datetime \<Rightarrow> string" where
  "strftime_z dt =
     (case utcoffset dt of
        None \<Rightarrow> []
      | Some off \<Rightarrow>
          (let a = \<bar>off\<bar>; s = a div 1000000; us = a mod 1000000
           in (if off < 0 then ''-'' else ''+'') @ pad2 (s div 3600) @ pad2 (s mod 3600 div 60) @
              (if s mod 60 \<noteq> 0 \<or> us \<noteq> 0 then pad2 (s mod 60) else []) @
              (if us \<noteq> 0 then ''.'' @ replicate (6 - length (str_nat (nat us))) (CHR ''0'') @
                 str_nat (nat us) else [])))"

section \<open>Temporal engine (app/engines/temporal.py, app/schemas/temporal.py)\<close>

datatype TimeOfDay = EARLY_MORNING | MORNING | AFTERNOON | EVENING | NIGHT | LATE_NIGHT

datatype DayType = WEEKDAY | WEEKEND | HOLIDAY

datatype Season = SPRING | SUMMER | AUTUMN | WINTER

datatype TimeReferenceType = ABSOLUTE | RELATIVE_DAY | RELATIVE_TIME | RELATIVE_PERIOD | IMPLICIT

record TemporalContext =
  timestamp :: datetime
  timezone :: string
  date :: int
  time :: int
  year :: int
  month :: int
  day :: int
  hour :: int
  minute :: int
  weekday :: int
  weekday_name :: string
  utc_offset_hours :: rat
  utc_timestamp :: datetime
  time_of_day :: TimeOfDay
  day_type :: DayType
  season :: Season
  session_start :: "datetime option"
  session_duration_minutes :: "rat option"

record TimeReference =
  reference_text :: string
  reference_type :: "TimeReferenceType option"
  context_hint :: "string option"

text \<open>The fields \<^verbatim>\<open>reference_type\<close> and \<^verbatim>\<open>confidence\<close> of a resolved reference are
  \<open>resolved_type\<close> and \<open>ref_confidence\<close> here.\<close>

record ResolvedTimeReference =
  original_reference :: string
  resolved_type :: TimeReferenceType
  resolved_start :: datetime
  resolved_end :: "datetime option"
  resolution_method :: string
  ref_confidence :: rat
  is_ambiguous :: bool
  alternative_resolutions :: "json list"
  human_readable :: string


text \<open>\<^verbatim>\<open>TIME_OF_DAY_RANGES\<close>, in the order of the dictionary.\<close>

definition TIME_OF_DAY_RANGES :: "(TimeOfDay \<times> int \<times> int) list" where
  "TIME_OF_DAY_RANGES =
     [(LATE_NIGHT, 0, 5), (EARLY_MORNING, 5, 8), (MORNING, 8, 12), (AFTERNOON, 12, 17),
      (EVENING, 17, 21), (NIGHT, 21, 24)]"

definition get_time_of_day :: "int \<Rightarrow> TimeOfDay" where
  "get_time_of_day h =
     (case find (\<lambda>(tod, start, end'). start \<le> h \<and> h < end') TIME_OF_DAY_RANGES of
        Some (tod, start, end') \<Rightarrow> tod
      | None \<Rightarrow> NIGHT)"

definition get_day_type :: "datetime \<Rightarrow> DayType" where
  "get_day_type dt = (if weekday_of (date_of dt) \<ge> 5 then WEEKEND else WEEKDAY)"

definition get_season :: "int \<Rightarrow> Season" where
  "get_season m =
     (if m \<in> {12, 1, 2} then WINTER
      else if m \<in> {3, 4, 5} then SPRING
      else if m \<in> {6, 7, 8} then SUMMER
      else if m \<in> {9, 10, 11} then AUTUMN
      else WINTER)"

text \<open>
  \<^verbatim>\<open>TemporalEngine.interpret\<close>, here \<open>temporal_interpret\<close>.  \<open>default_timezone\<close> is the engine's attribute; the
  timezone argument counts as absent when it is \<^verbatim>\<open>None\<close> or empty.
\<close>

definition temporal_interpret ::
  "(string \<Rightarrow> tzinfo option) \<Rightarrow> string \<Rightarrow> datetime \<Rightarrow> string option \<Rightarrow> datetime option
     \<Rightarrow> error + TemporalContext"
where
  "temporal_interpret zoneinfo default_timezone ts timezone_arg session_start_arg =
     (let tz_str = (case timezone_arg of None \<Rightarrow> default_timezone
                    | Some s \<Rightarrow> if s = [] then default_timezone else s)
      in case ZoneInfo zoneinfo tz_str of
        Inl e \<Rightarrow> Inl e
      | Inr z \<Rightarrow>
          (let ts1 = (case tz ts of None \<Rightarrow> replace_tzinfo z ts
                      | Some z0 \<Rightarrow> astimezone z0 z ts)
           in case ZoneInfo zoneinfo ''UTC'' of
             Inl e \<Rightarrow> Inl e
           | Inr utc \<Rightarrow>
               (let utc_ts = astimezone z utc ts1;
                    utc_offset = utcoffset_wall z (wall ts1);
                    utc_offset_hours' =
                      (if utc_offset \<noteq> 0 then fdiv (total_seconds utc_offset) 3600 else 0);
                    ctx = (\<lambda>duration.
                      \<lparr>timestamp = ts1, timezone = tz_str, date = date_of ts1, time = time_of ts1,
                       year = year_of (date_of ts1), month = month_of (date_of ts1),
                       day = day_of (date_of ts1), hour = hour_of ts1, minute = minute_of ts1,
                       weekday = weekday_of (date_of ts1), weekday_name = strftime_A ts1,
                       utc_offset_hours = utc_offset_hours', utc_timestamp = utc_ts,
                       time_of_day = get_time_of_day (hour_of ts1), day_type = get_day_type ts1,
                       season = get_season (month_of (date_of ts1)),
                       session_start = session_start_arg,
                       session_duration_minutes = duration\<rparr>)
                in case session_start_arg of
                  None \<Rightarrow> Inr (ctx None)
                | Some s \<Rightarrow>
                    (case dt_sub ts1 s of
                       Inl e \<Rightarrow> Inl e
                     | Inr td \<Rightarrow> Inr (ctx (Some (fdiv (total_seconds td) 60)))))))"


subsection \<open>Reference resolution\<close>

text \<open>
  The patterns of the engine are all of the form \<^verbatim>\<open>\bphrase\b\<close>.  Text is ASCII:
  a word character is a letter, a digit or the underscore.
\<close>

definition is_word_char :: "char \<Rightarrow> bool" where
  "is_word_char c =
     (let n = (of_char c :: nat)
      in (48 \<le> n \<and> n \<le> 57) \<or> (65 \<le> n \<and> n \<le> 90) \<or> (97 \<le> n \<and> n \<le> 122) \<or> n = 95)"

definition lower_char :: "char \<Rightarrow> char" where
  "lower_char c =
     (let n = (of_char c :: nat) in if 65 \<le> n \<and> n \<le> 90 then char_of (n + 32) else c)"

definition lower :: "string \<Rightarrow> string" where
  "lower s = map lower_char s"

definition is_space :: "char \<Rightarrow> bool" where
  "is_space c = (let n = (of_char c :: nat) in (9 \<le> n \<and> n \<le> 13) \<or> (28 \<le> n \<and> n \<le> 32))"

definition strip :: "string \<Rightarrow> string" where
  "strip s = rev (dropWhile is_space (rev (dropWhile is_space s)))"

text \<open>The assertion \<^verbatim>\<open>\b\<close> at position \<open>i\<close> of the text.\<close>

definition word_boundary :: "string \<Rightarrow> nat \<Rightarrow> bool" where
  "word_boundary text i =
     ((0 < i \<and> i \<le> length text \<and> is_word_char (text ! (i - 1)))
      \<noteq> (i < length text \<and> is_word_char (text ! i)))"

definition match_at :: "string \<Rightarrow> string \<Rightarrow> nat \<Rightarrow> bool" where
  "match_at phrase text i =
     (word_boundary text i
      \<and> lower (take (length phrase) (drop i text)) = lower phrase
      \<and> word_boundary text (i + length phrase))"

text \<open>\<^verbatim>\<open>re.search(r"\bphrase\b", text, re.IGNORECASE)\<close> finds a match.\<close>

definition re_search :: "string \<Rightarrow> string \<Rightarrow> bool" where
  "re_search phrase text = list_ex (match_at phrase text) [0..<Suc (length text)]"

text \<open>The two pattern tables, in the order of the dictionaries.\<close>

definition RELATIVE_DAY_PATTERNS :: "(string \<times> int) list" where
  "RELATIVE_DAY_PATTERNS =
     [(''day before yesterday'', - 2), (''day after tomorrow'', 2), (''today'', 0),
      (''yesterday'', - 1), (''tomorrow'', 1)]"

definition RELATIVE_TIME_PATTERNS :: "(string \<times> string) list" where
  "RELATIVE_TIME_PATTERNS =
     [(''now'', ''current''), (''right now'', ''current''), (''earlier'', ''past_session''),
      (''just now'', ''recent''), (''recently'', ''recent''), (''a moment ago'', ''recent''),
      (''soon'', ''near_future''), (''later'', ''future_session''),
      (''shortly'', ''near_future'')]"

text \<open>\<^verbatim>\<open>datetime.combine(date, time(h, m, s), tzinfo=ZoneInfo(key))\<close>.\<close>

definition combine ::
  "(string \<Rightarrow> tzinfo option) \<Rightarrow> int \<Rightarrow> int \<Rightarrow> string \<Rightarrow> error + datetime" where
  "combine zoneinfo d t k =
     (case ZoneInfo zoneinfo k of
        Inl e \<Rightarrow> Inl e
      | Inr z \<Rightarrow> Inr \<lparr>wall = d * 86400000000 + t, tz = Some z\<rparr>)"

definition resolve_relative_day ::
  "(string \<Rightarrow> tzinfo option) \<Rightarrow> string \<Rightarrow> int \<Rightarrow> TemporalContext
     \<Rightarrow> error + ResolvedTimeReference"
where
  "resolve_relative_day zoneinfo text day_offset anchor =
     (let resolved_date = date anchor + day_offset
      in case combine zoneinfo resolved_date 0 (timezone anchor) of
        Inl e \<Rightarrow> Inl e
      | Inr start \<Rightarrow>
          (case combine zoneinfo resolved_date 86399000000 (timezone anchor) of
             Inl e \<Rightarrow> Inl e
           | Inr end' \<Rightarrow>
               Inr \<lparr>original_reference = text, resolved_type = RELATIVE_DAY,
                    resolved_start = start, resolved_end = Some end',
                    resolution_method = ''relative_day_offset_'' @ str_int day_offset,
                    ref_confidence = round_double (95/100), is_ambiguous = False,
                    alternative_resolutions = [],
                    human_readable = strftime_ABdY resolved_date\<rparr>))"

definition resolve_relative_time ::
  "(string \<Rightarrow> tzinfo option) \<Rightarrow> string \<Rightarrow> string \<Rightarrow> TemporalContext
     \<Rightarrow> error + ResolvedTimeReference"
where
  "resolve_relative_time zoneinfo text time_type anchor =
     (if time_type = ''current'' then
        Inr \<lparr>original_reference = text, resolved_type = RELATIVE_TIME,
             resolved_start = timestamp anchor, resolved_end = None,
             resolution_method = ''current_moment'',
             ref_confidence = round_double (99/100), is_ambiguous = False,
             alternative_resolutions = [],
             human_readable = strftime_IMp (timestamp anchor)\<rparr>
      else if time_type = ''recent'' then
        Inr \<lparr>original_reference = text, resolved_type = RELATIVE_TIME,
             resolved_start = add_timedelta (timestamp anchor) (- minutes 15),
             resolved_end = Some (timestamp anchor),
             resolution_method = ''recent_window'',
             ref_confidence = round_double (75/100), is_ambiguous = True,
             alternative_resolutions =
               [JDict [(''window'', JStr ''5_minutes''), (''confidence'', JFloat (round_double (5/10)))],
                JDict [(''window'', JStr ''30_minutes''), (''confidence'', JFloat (round_double (6/10)))]],
             human_readable = ''within the last few minutes''\<rparr>
      else if time_type = ''past_session'' then
        (case session_start anchor of
           Some s \<Rightarrow>
             Inr \<lparr>original_reference = text, resolved_type = RELATIVE_TIME,
                  resolved_start = s,
                  resolved_end = Some (add_timedelta (timestamp anchor) (- minutes 5)),
                  resolution_method = ''session_earlier'',
                  ref_confidence = round_double (7/10), is_ambiguous = True,
                  alternative_resolutions = [],
                  human_readable = ''earlier in this session''\<rparr>
         | None \<Rightarrow>
             (case combine zoneinfo (date anchor) 0 (timezone anchor) of
                Inl e \<Rightarrow> Inl e
              | Inr start \<Rightarrow>
                  Inr \<lparr>original_reference = text, resolved_type = RELATIVE_TIME,
                       resolved_start = start, resolved_end = Some (timestamp anchor),
                       resolution_method = ''earlier_today'',
                       ref_confidence = round_double (5/10), is_ambiguous = True,
                       alternative_resolutions = [],
                       human_readable = ''earlier today''\<rparr>))
      else if time_type = ''near_future'' \<or> time_type = ''future_session'' then
        (let minutes_ahead = (if time_type = ''near_future'' then 30 else 60)
         in Inr \<lparr>original_reference = text, resolved_type = RELATIVE_TIME,
                 resolved_start = timestamp anchor,
                 resolved_end = Some (add_timedelta (timestamp anchor) (minutes minutes_ahead)),
                 resolution_method = ''future_'' @ str_int minutes_ahead @ ''m'',
                 ref_confidence = round_double (6/10), is_ambiguous = True,
                 alternative_resolutions = [],
                 human_readable =
                   ''within the next '' @ str_int minutes_ahead @ '' minutes''\<rparr>)
      else
        Inr \<lparr>original_reference = text, resolved_type = IMPLICIT,
             resolved_start = timestamp anchor, resolved_end = None,
             resolution_method = ''fallback'',
             ref_confidence = round_double (3/10), is_ambiguous = True,
             alternative_resolutions = [],
             human_readable = ''(time reference unclear)''\<rparr>)"

text \<open>
  \<^verbatim>\<open>_try_parse_absolute\<close>.  The library's \<^verbatim>\<open>strptime\<close> is a parameter: for a text and
  a format it gives the parsed year, month and day, or nothing when the text does not
  fit the format (the year is 1900 when the format has none).
\<close>

definition absolute_formats :: "string list" where
  "absolute_formats =
     [''%Y-%m-%d'', ''%m/%d/%Y'', ''%d/%m/%Y'', ''%B %d, %Y'', ''%B %d'', ''%b %d, %Y'',
      ''%b %d'']"

fun days_from_civil :: "int \<Rightarrow> int \<Rightarrow> int \<Rightarrow> int" where
  "days_from_civil y m d =
     (let y' = (if m \<le> 2 then y - 1 else y);
          era = y' div 400;
          yoe = y' - era * 400;
          doy = (153 * (if m > 2 then m - 3 else m + 9) + 2) div 5 + d - 1;
          doe = yoe * 365 + yoe div 4 - yoe div 100 + doy
      in era * 146097 + doe - 719468)"

fun try_parse_absolute ::
  "(string \<Rightarrow> tzinfo option) \<Rightarrow> (string \<Rightarrow> string \<Rightarrow> (int \<times> int \<times> int) option)
     \<Rightarrow> string list \<Rightarrow> string \<Rightarrow> TemporalContext
     \<Rightarrow> error + ResolvedTimeReference option"
where
  "try_parse_absolute zoneinfo strptime [] text anchor = Inr None"
| "try_parse_absolute zoneinfo strptime (fmt # fmts) text anchor =
     (case strptime text fmt of
        None \<Rightarrow> try_parse_absolute zoneinfo strptime fmts text anchor
      | Some (y, m, d) \<Rightarrow>
          (let y' = (if y = 1900 then year anchor else y)
           in case combine zoneinfo (days_from_civil y' m d) 0 (timezone anchor) of
             Inl e \<Rightarrow> Inl e
           | Inr parsed \<Rightarrow>
               Inr (Some \<lparr>original_reference = text, resolved_type = ABSOLUTE,
                          resolved_start = parsed, resolved_end = None,
                          resolution_method = ''parsed_format_'' @ fmt,
                          ref_confidence = round_double (9/10), is_ambiguous = False,
                          alternative_resolutions = [],
                          human_readable = strftime_ABdY (date_of parsed)\<rparr>)))"

definition apostrophe :: char where
  "apostrophe = char_of (39 :: nat)"

text \<open>\<^verbatim>\<open>TemporalEngine.resolve_reference\<close>.\<close>

definition resolve_reference ::
  "(string \<Rightarrow> tzinfo option) \<Rightarrow> (string \<Rightarrow> string \<Rightarrow> (int \<times> int \<times> int) option)
     \<Rightarrow> TimeReference \<Rightarrow> TemporalContext \<Rightarrow> error + ResolvedTimeReference"
where
  "resolve_reference zoneinfo strptime reference anchor =
     (let text = strip (lower (reference_text reference))
      in case find (\<lambda>(pattern, day_offset). re_search pattern text) RELATIVE_DAY_PATTERNS of
        Some (pattern, day_offset) \<Rightarrow> resolve_relative_day zoneinfo text day_offset anchor
      | None \<Rightarrow>
          (case find (\<lambda>(pattern, time_type). re_search pattern text) RELATIVE_TIME_PATTERNS of
             Some (pattern, time_type) \<Rightarrow> resolve_relative_time zoneinfo text time_type anchor
           | None \<Rightarrow>
               (case try_parse_absolute zoneinfo strptime absolute_formats text anchor of
                  Inl e \<Rightarrow> Inl e
                | Inr (Some r) \<Rightarrow> Inr r
                | Inr None \<Rightarrow>
                    Inr \<lparr>original_reference = reference_text reference,
                         resolved_type = IMPLICIT,
                         resolved_start = timestamp anchor, resolved_end = None,
                         resolution_method = ''fallback_to_current'',
                         ref_confidence = round_double (2/10), is_ambiguous = True,
                         alternative_resolutions = [],
                         human_readable =
                           ''(unable to resolve '' @ [apostrophe] @ text @ [apostrophe] @
                           '', using current time)''\<rparr>)))"

section \<open>Fast path of the event bus (app/core/event_bus.py)\<close>

text \<open>\<^verbatim>\<open>datetime.isoformat()\<close>.\<close>

definition pad4 :: "int \<Rightarrow> string" where
  "pad4 n = replicate (4 - length (str_nat (nat n))) (CHR ''0'') @ str_nat (nat n)"

definition pad6 :: "int \<Rightarrow> string" where
  "pad6 n = replicate (6 - length (str_nat (nat n))) (CHR ''0'') @ str_nat (nat n)"

definition isoformat :: "datetime \<Rightarrow> string" where
  "isoformat dt =
     pad4 (year_of (date_of dt)) @ ''-'' @ pad2 (month_of (date_of dt)) @ ''-'' @
     pad2 (day_of (date_of dt)) @ ''T'' @ pad2 (hour_of dt) @ '':'' @ pad2 (minute_of dt) @
     '':'' @ pad2 (second_of dt) @
     (if microsecond_of dt \<noteq> 0 then ''.'' @ pad6 (microsecond_of dt) else []) @
     (case utcoffset dt of
        None \<Rightarrow> []
      | Some off \<Rightarrow>
          (let a = \<bar>off\<bar>; s = a div 1000000; us = a mod 1000000
           in (if off < 0 then ''-'' else ''+'') @ pad2 (s div 3600) @ '':'' @
              pad2 (s mod 3600 div 60) @
              (if s mod 60 \<noteq> 0 \<or> us \<noteq> 0 then '':'' @ pad2 (s mod 60) else []) @
              (if us \<noteq> 0 then ''.'' @ pad6 us else [])))"

text \<open>The fields \<^verbatim>\<open>timestamp\<close>, \<^verbatim>\<open>time_of_day\<close>, \<^verbatim>\<open>minute\<close>, \<^verbatim>\<open>timezone\<close> and
  \<^verbatim>\<open>locale\<close> of the atomic context carry the prefix \<open>ac_\<close> here.\<close>

record AtomicContext =
  ac_timestamp :: datetime
  timestamp_iso :: string
  day_of_week :: string
  day_of_week_number :: int
  ac_time_of_day :: string
  hour_24 :: int
  ac_minute :: int
  ac_timezone :: string
  timezone_offset :: string
  ac_locale :: string
  language :: string
  currency :: string
  date_format :: string

text \<open>
  The constructor as \<^verbatim>\<open>resolve_atomic_context\<close> calls it, followed by
  \<^verbatim>\<open>__post_init__\<close>: the derived fields are empty at that point and are all computed.
\<close>

definition new_AtomicContext ::
  "datetime \<Rightarrow> string \<Rightarrow> string \<Rightarrow> string \<Rightarrow> string \<Rightarrow> string \<Rightarrow> string \<Rightarrow> AtomicContext"
where
  "new_AtomicContext ts tzs off loc lang cur fmt =
     (let h = hour_of ts
      in \<lparr>ac_timestamp = ts, timestamp_iso = isoformat ts, day_of_week = strftime_A ts,
          day_of_week_number = weekday_of (date_of ts),
          ac_time_of_day =
            (if 5 \<le> h \<and> h < 12 then ''morning''
             else if 12 \<le> h \<and> h < 17 then ''afternoon''
             else if 17 \<le> h \<and> h < 21 then ''evening''
             else ''night''),
          hour_24 = h, ac_minute = minute_of ts, ac_timezone = tzs, timezone_offset = off,
          ac_locale = loc, language = lang, currency = cur, date_format = fmt\<rparr>)"

definition FAST_PATH_TARGET_MS :: rat where
  "FAST_PATH_TARGET_MS = 10"

text \<open>
  \<^verbatim>\<open>EventBus.resolve_atomic_context\<close>.  The clock is a parameter: \<open>now_utc\<close> is the
  instant that \<^verbatim>\<open>datetime.now\<close> reads and \<open>elapsed_ms\<close> the time the call takes.  The
  result is the context together with the warnings that the call logs.
\<close>

definition resolve_atomic_context ::
  "(string \<Rightarrow> tzinfo option) \<Rightarrow> int \<Rightarrow> rat \<Rightarrow> string \<Rightarrow> string \<Rightarrow> string \<Rightarrow> string
     \<Rightarrow> AtomicContext \<times> string list"
where
  "resolve_atomic_context zoneinfo now_utc elapsed_ms user_timezone user_locale user_language
       user_currency =
     (let (now, user_timezone') =
            (case ZoneInfo zoneinfo user_timezone of
               Inr z \<Rightarrow> (datetime_now now_utc z, user_timezone)
             | Inl e \<Rightarrow> (datetime_now now_utc timezone_utc, ''UTC''));
          offset = strftime_z now;
          offset_formatted =
            (if length offset = 5 then take 3 offset @ '':'' @ drop 3 offset else ''+00:00'');
          date_format' =
            (if prefix ''en-GB'' user_locale \<or> prefix ''en-AU'' user_locale then ''DD/MM/YYYY''
             else if prefix ''zh'' user_locale \<or> prefix ''ja'' user_locale
                     \<or> prefix ''ko'' user_locale then ''YYYY/MM/DD''
             else ''MM/DD/YYYY'');
          context = new_AtomicContext now user_timezone' offset_formatted user_locale
                      user_language user_currency date_format'
      in (context,
          if elapsed_ms > FAST_PATH_TARGET_MS then [''Fast path exceeded target time''] else []))"

subsection \<open>Example zones and times\<close>

definition utc_zone :: tzinfo where
  "utc_zone = fixed_zone 1 ''UTC'' 0"

definition est_zone :: tzinfo where
  "est_zone = fixed_zone 2 ''EST'' (- 18000000000)"

text \<open>A time zone database that knows two zones.\<close>

definition example_zoneinfo :: "string \<Rightarrow> tzinfo option" where
  "example_zoneinfo k =
     (if k = ''UTC'' then Some utc_zone else if k = ''EST'' then Some est_zone else None)"


definition mk_datetime :: "int \<Rightarrow> int \<Rightarrow> int \<Rightarrow> int \<Rightarrow> int \<Rightarrow> tzinfo \<Rightarrow> datetime" where
  "mk_datetime y m d hh mm z =
     \<lparr>wall = days_from_civil y m d * 86400000000 + hh * 3600000000 + mm * 60000000,
      tz = Some z\<rparr>"

definition no_strptime :: "string \<Rightarrow> string \<Rightarrow> (int \<times> int \<times> int) option" where
  "no_strptime text fmt = None"

definition example_anchor :: TemporalContext where
  "example_anchor =
     (let ts = mk_datetime 2026 1 4 0 30 utc_zone
      in \<lparr>timestamp = ts, timezone = ''UTC'', date = date_of ts, time = time_of ts,
          year = 2026, month = 1, day = 4, hour = 0, minute = 30, weekday = 6,
          weekday_name = ''Sunday'', utc_offset_hours = 0, utc_timestamp = ts,
          time_of_day = LATE_NIGHT, day_type = WEEKEND, season = WINTER,
          session_start = None, session_duration_minutes = None\<rparr>)"

section \<open>Slow path of the event bus (app/core/event_bus.py)\<close>

text \<open>
  Python dictionaries as association lists with one entry for a key.  A JSON value is a
  key by its structure; the equality of numbers of different types (\<^verbatim>\<open>1 == 1.0\<close>) is
  not represented.
\<close>

definition dict_get :: "('k \<times> 'v) list \<Rightarrow> 'k \<Rightarrow> 'v option" where
  "dict_get d k = map_of d k"

definition dict_pop :: "'k \<Rightarrow> ('k \<times> 'v) list \<Rightarrow> ('k \<times> 'v) list" where
  "dict_pop k d = filter (\<lambda>p. fst p \<noteq> k) d"

fun dict_set :: "'k \<Rightarrow> 'v \<Rightarrow> ('k \<times> 'v) list \<Rightarrow> ('k \<times> 'v) list" where
  "dict_set k v [] = [(k, v)]"
| "dict_set k v (p # ps) = (if fst p = k then (k, v) # ps else p # dict_set k v ps)"

text \<open>Truth value and hashability of a JSON value in Python.\<close>

fun truthy :: "json \<Rightarrow> bool" where
  "truthy JNull = False"
| "truthy (JBool b) = b"
| "truthy (JInt n) = (n \<noteq> 0)"
| "truthy (JFloat x) = (x \<noteq> 0)"
| "truthy (JStr s) = (s \<noteq> [])"
| "truthy (JList xs) = (xs \<noteq> [])"
| "truthy (JDict kvs) = (kvs \<noteq> [])"

fun hashable :: "json \<Rightarrow> bool" where
  "hashable (JList xs) = False"
| "hashable (JDict kvs) = False"
| "hashable v = True"

record HighEntropyContext =
  request_id :: json
  vector_memories :: json
  web_grounding :: json
  cross_session_insights :: json
  semantic_relations :: json
  resolved_at :: "int option"
  resolution_time_ms :: rat

text \<open>
  A call of \<^verbatim>\<open>_request_high_entropy_context\<close> is a task of the event loop: it waits for
  its \<^verbatim>\<open>asyncio.Event\<close>, and ends by returning a context to its caller or by being
  cancelled when the caller's \<^verbatim>\<open>wait_for\<close> runs out of time.
\<close>

datatype task_state = Waiting | Returned HighEntropyContext | Cancelled

record task =
  task_request_id :: string
  task_event :: nat
  task_state :: task_state

text \<open>
  The bus: the dictionaries \<^verbatim>\<open>_pending_requests\<close> and \<^verbatim>\<open>_results\<close>, the flags of the
  events created so far (an event is its index), and the tasks started so far.
\<close>

record bus =
  pending_requests :: "(json \<times> nat) list"
  results :: "(json \<times> HighEntropyContext) list"
  events :: "bool list"
  tasks :: "task list"

definition empty_bus :: bus where
  "empty_bus = \<lparr>pending_requests = [], results = [], events = [], tasks = []\<rparr>"

text \<open>
  \<^verbatim>\<open>_request_high_entropy_context\<close> up to \<^verbatim>\<open>await event.wait()\<close>: a new event is stored
  under the request id and the task starts to wait (the request is published; Redis is not
  represented).
\<close>

definition request_high_entropy_context :: "bus \<Rightarrow> string \<Rightarrow> bus" where
  "request_high_entropy_context s rid =
     (let event = length (events s)
      in s\<lparr>events := events s @ [False],
           pending_requests := dict_set (JStr rid) event (pending_requests s),
           tasks := tasks s @ [\<lparr>task_request_id = rid, task_event = event,
                                  task_state = Waiting\<rparr>]\<rparr>)"

text \<open>
  The rest of it, run when the event loop resumes task \<open>n\<close> after its event was set: the
  result is popped and returned (an empty context if there is none), and the clause
  \<^verbatim>\<open>finally\<close> pops the pending request.
\<close>

definition resume :: "bus \<Rightarrow> nat \<Rightarrow> int \<Rightarrow> rat \<Rightarrow> bus" where
  "resume s n now elapsed_ms =
     (if n < length (tasks s) \<and> task_state (tasks s ! n) = Waiting
         \<and> events s ! task_event (tasks s ! n)
      then (let t = tasks s ! n;
                rid = JStr (task_request_id t);
                returned =
                  (case dict_get (results s) rid of
                     Some result \<Rightarrow> result\<lparr>resolution_time_ms := elapsed_ms\<rparr>
                   | None \<Rightarrow>
                       \<lparr>request_id = rid, vector_memories = JList [], web_grounding = JList [],
                        cross_session_insights = JList [], semantic_relations = JList [],
                        resolved_at = Some now, resolution_time_ms = elapsed_ms\<rparr>)
            in s\<lparr>results := dict_pop rid (results s),
                 pending_requests := dict_pop rid (pending_requests s),
                 tasks := (tasks s)[n := t\<lparr>task_state := Returned returned\<rparr>]\<rparr>)
      else s)"

text \<open>
  The timeout of \<^verbatim>\<open>asyncio.wait_for\<close> in \<^verbatim>\<open>resolve_with_timeout\<close>: the waiting task
  \<open>n\<close> is cancelled, and only the clause \<^verbatim>\<open>finally\<close> runs.
\<close>

definition timeout :: "bus \<Rightarrow> nat \<Rightarrow> bus" where
  "timeout s n =
     (if n < length (tasks s) \<and> task_state (tasks s ! n) = Waiting
      then (let t = tasks s ! n
            in s\<lparr>pending_requests := dict_pop (JStr (task_request_id t)) (pending_requests s),
                 tasks := (tasks s)[n := t\<lparr>task_state := Cancelled\<rparr>]\<rparr>)
      else s)"

definition get_default :: "(string \<times> json) list \<Rightarrow> string \<Rightarrow> json \<Rightarrow> json" where
  "get_default d k dflt = (case dict_get d k of None \<Rightarrow> dflt | Some v \<Rightarrow> v)"

text \<open>\<^verbatim>\<open>handle_response\<close>; \<open>now\<close> is the reading of the clock.\<close>

definition handle_response :: "bus \<Rightarrow> (string \<times> json) list \<Rightarrow> int \<Rightarrow> error + bus" where
  "handle_response s response_data now =
     (case dict_get response_data ''request_id'' of
        None \<Rightarrow> Inr s
      | Some rid \<Rightarrow>
          if \<not> truthy rid then Inr s
          else if \<not> hashable rid then Inl TypeError
          else
            (let high_entropy =
                   \<lparr>request_id = rid,
                    vector_memories = get_default response_data ''vector_memories'' (JList []),
                    web_grounding = get_default response_data ''web_grounding'' (JList []),
                    cross_session_insights =
                      get_default response_data ''cross_session_insights'' (JList []),
                    semantic_relations =
                      get_default response_data ''semantic_relations'' (JList []),
                    resolved_at = Some now, resolution_time_ms = 0\<rparr>;
                 s1 = s\<lparr>results := dict_set rid high_entropy (results s)\<rparr>
             in case dict_get (pending_requests s1) rid of
                  None \<Rightarrow> Inr s1
                | Some event \<Rightarrow> Inr (s1\<lparr>events := (events s1)[event := True]\<rparr>)))"

text \<open>
  What happens on the bus, one event at a time.  A response that raises is logged by the
  listener and leaves the bus as it was.
\<close>

datatype bus_event =
    Request string
  | Response "(string \<times> json) list" int
  | Resume nat int rat
  | Timeout nat

fun bus_step :: "bus \<Rightarrow> bus_event \<Rightarrow> bus" where
  "bus_step s (Request rid) = request_high_entropy_context s rid"
| "bus_step s (Response response_data now) =
     (case handle_response s response_data now of Inl e \<Rightarrow> s | Inr s' \<Rightarrow> s')"
| "bus_step s (Resume n now elapsed_ms) = resume s n now elapsed_ms"
| "bus_step s (Timeout n) = timeout s n"

definition run_bus :: "bus \<Rightarrow> bus_event list \<Rightarrow> bus" where
  "run_bus s evs = foldl bus_step s evs"

fun requests :: "json \<Rightarrow> bus_event \<Rightarrow> bool" where
  "requests rid (Request r) = (JStr r = rid)"
| "requests rid ev = False"

text \<open>No task that still waits was started for the request id \<open>rid\<close>.\<close>

definition waits_for :: "json \<Rightarrow> task \<Rightarrow> bool" where
  "waits_for rid t = (task_state t = Waiting \<and> JStr (task_request_id t) = rid)"

definition nobody_waits :: "bus \<Rightarrow> json \<Rightarrow> bool" where
  "nobody_waits s rid = (\<not> list_ex (waits_for rid) (tasks s))"

definition late_response :: "(string \<times> json) list" where
  "late_response =
     [(''request_id'', JStr ''r1''), (''vector_memories'', JList [JStr ''memory''])]"

text \<open>A buffered result for \<open>rid\<close> that nobody waits for stays where it is.\<close>

definition buffered :: "bus \<Rightarrow> json \<Rightarrow> bool" where
  "buffered s rid = (dict_get (results s) rid \<noteq> None \<and> nobody_waits s rid)"

section \<open>Prompt composer (app/engines/composer.py)\<close>

datatype ContextRelevance = CRITICAL | HIGH | MEDIUM | LOW | IRRELEVANT

datatype InjectionStyle = SYSTEM_PROMPT | CONTEXT_BLOCK | INLINE | METADATA

text \<open>
  A context element.  Its fields \<^verbatim>\<open>key\<close>, \<^verbatim>\<open>value\<close>, \<^verbatim>\<open>context_type\<close>,
  \<^verbatim>\<open>confidence\<close>, \<^verbatim>\<open>source\<close> and \<^verbatim>\<open>interpretation\<close> carry the prefix \<open>el_\<close> here.  The
  confidence is whatever value the input holds at that place.
\<close>

record ContextElement =
  el_key :: string
  el_value :: json
  el_context_type :: string
  relevance :: ContextRelevance
  el_confidence :: json
  token_estimate :: int
  el_source :: string
  el_interpretation :: "string option"

text \<open>The composed prompt; its metadata and composition time are left out.\<close>

record ComposedPrompt =
  system_context :: string
  user_message :: string
  included_context :: "ContextElement list"
  excluded_context :: "ContextElement list"
  total_tokens :: int

text \<open>
  What the composer takes from the Python library without it being described here: the
  \<^verbatim>\<open>repr\<close> of a float, the \<^verbatim>\<open>str\<close> of a list or dictionary, and
  \<^verbatim>\<open>json.dumps(\<dots>, indent=2, default=str)\<close>.
\<close>

record library =
  repr_float :: "rat \<Rightarrow> string"
  str_container :: "json \<Rightarrow> string"
  json_dumps :: "json \<Rightarrow> string"

text \<open>\<^verbatim>\<open>str(v)\<close>, as the f-strings apply it.\<close>

fun py_str :: "library \<Rightarrow> json \<Rightarrow> string" where
  "py_str lib JNull = ''None''"
| "py_str lib (JBool b) = (if b then ''True'' else ''False'')"
| "py_str lib (JInt n) = str_int n"
| "py_str lib (JFloat x) = repr_float lib x"
| "py_str lib (JStr s) = s"
| "py_str lib (JList xs) = str_container lib (JList xs)"
| "py_str lib (JDict kvs) = str_container lib (JDict kvs)"

text \<open>\<^verbatim>\<open>sep.join(xs)\<close>.\<close>

fun join :: "string \<Rightarrow> string list \<Rightarrow> string" where
  "join sep [] = []"
| "join sep [x] = x"
| "join sep (x # y # ys) = x @ sep @ join sep (y # ys)"

text \<open>\<^verbatim>\<open>kw in text\<close> for strings.\<close>

definition contains :: "string \<Rightarrow> string \<Rightarrow> bool" where
  "contains text kw =
     list_ex (\<lambda>i. take (length kw) (drop i text) = kw) [0..<Suc (length text - length kw)]"

text \<open>\<^verbatim>\<open>k in d\<close> for a dictionary.\<close>

definition has_key :: "(string \<times> json) list \<Rightarrow> string \<Rightarrow> bool" where
  "has_key d k = (k \<in> set (map fst d))"

text \<open>Sequencing of computations that may raise.\<close>

definition and_then :: "error + 'a \<Rightarrow> ('a \<Rightarrow> error + 'b) \<Rightarrow> error + 'b" where
  "and_then r f = (case r of Inl e \<Rightarrow> Inl e | Inr x \<Rightarrow> f x)"

text \<open>
  \<^verbatim>\<open>v.get(k, default)\<close>, \<^verbatim>\<open>v[0]\<close> and \<^verbatim>\<open>v > 1\<close> for a value \<open>v\<close> of any JSON type
  (for \<^verbatim>\<open>v[0]\<close> the value is not empty).
\<close>

fun py_get :: "json \<Rightarrow> string \<Rightarrow> json \<Rightarrow> error + json" where
  "py_get (JDict d) k dflt = Inr (case map_of d k of None \<Rightarrow> dflt | Some v \<Rightarrow> v)"
| "py_get v k dflt = Inl AttributeError"

fun first_item :: "json \<Rightarrow> error + json" where
  "first_item (JList (x # xs)) = Inr x"
| "first_item (JStr (c # cs)) = Inr (JStr [c])"
| "first_item (JList []) = Inl IndexError"
| "first_item (JStr []) = Inl IndexError"
| "first_item (JDict d) = Inl KeyError"
| "first_item v = Inl TypeError"

fun greater_than_one :: "json \<Rightarrow> error + bool" where
  "greater_than_one (JInt n) = Inr (n > 1)"
| "greater_than_one (JFloat x) = Inr (x > 1)"
| "greater_than_one (JBool b) = Inr False"
| "greater_than_one v = Inl TypeError"

text \<open>The number that a JSON value is in a product with a float.\<close>

fun as_float :: "json \<Rightarrow> error + rat" where
  "as_float (JInt n) = Inr (round_double (of_int n))"
| "as_float (JFloat x) = Inr x"
| "as_float (JBool b) = Inr (if b then 1 else 0)"
| "as_float v = Inl TypeError"

text \<open>\<^verbatim>\<open>v < x\<close> for a float \<open>x\<close> and a number \<open>v\<close>; integers compare by their exact value.\<close>

fun less_than :: "json \<Rightarrow> rat \<Rightarrow> error + bool" where
  "less_than (JInt n) x = Inr (of_int n < x)"
| "less_than (JFloat y) x = Inr (y < x)"
| "less_than (JBool b) x = Inr ((if b then 1 else 0) < x)"
| "less_than v x = Inl TypeError"

definition DEFAULT_CONFIDENCE_THRESHOLD :: rat where
  "DEFAULT_CONFIDENCE_THRESHOLD = round_double (5/10)"

definition MAX_CONTEXT_TOKENS :: int where
  "MAX_CONTEXT_TOKENS = 500"

definition MIN_RELEVANCE_SCORE :: rat where
  "MIN_RELEVANCE_SCORE = round_double (3/10)"

definition relevance_weights :: "ContextRelevance \<Rightarrow> rat" where
  "relevance_weights r =
     (case r of CRITICAL \<Rightarrow> 1 | HIGH \<Rightarrow> round_double (8/10) | MEDIUM \<Rightarrow> round_double (5/10)
      | LOW \<Rightarrow> round_double (2/10) | IRRELEVANT \<Rightarrow> 0)"

definition inclusion_score :: "ContextElement \<Rightarrow> error + rat" where
  "inclusion_score e =
     and_then (as_float (el_confidence e)) (\<lambda>c. Inr (fmul (relevance_weights (relevance e)) c))"

definition TEMPORAL_KEYWORDS :: "string list" where
  "TEMPORAL_KEYWORDS =
     [''today'', ''tomorrow'', ''yesterday'', ''now'', ''later'', ''soon'',
      ''morning'', ''afternoon'', ''evening'', ''night'', ''week'', ''month'',
      ''schedule'', ''meeting'', ''deadline'', ''when'', ''time'', ''date'',
      ''remind'', ''appointment'', ''calendar'', ''o'clock'', ''am'', ''pm'']"

definition SPATIAL_KEYWORDS :: "string list" where
  "SPATIAL_KEYWORDS =
     [''here'', ''there'', ''near'', ''nearby'', ''local'', ''location'',
      ''weather'', ''timezone'', ''country'', ''city'', ''region'',
      ''restaurant'', ''store'', ''place'', ''address'', ''directions'']"

definition SITUATIONAL_KEYWORDS :: "string list" where
  "SITUATIONAL_KEYWORDS =
     [''this'', ''that'', ''it'', ''they'', ''continue'', ''again'',
      ''same'', ''previous'', ''earlier'', ''before'', ''last time'',
      ''as i said'', ''mentioned'', ''working on'', ''project'']"

text \<open>The signals of \<^verbatim>\<open>_analyze_message\<close>: temporal, spatial, situational.\<close>

record signals =
  temporal_signal :: rat
  spatial_signal :: rat
  situational_signal :: rat

definition keyword_score :: "string list \<Rightarrow> string \<Rightarrow> rat" where
  "keyword_score kws message_lower =
     min 1 (round_double (of_nat (length (filter (contains message_lower) kws)) / 5))"

definition analyze_message :: "string \<Rightarrow> signals" where
  "analyze_message message =
     (let message_lower = lower message
      in \<lparr>temporal_signal = keyword_score TEMPORAL_KEYWORDS message_lower,
          spatial_signal = keyword_score SPATIAL_KEYWORDS message_lower,
          situational_signal = keyword_score SITUATIONAL_KEYWORDS message_lower\<rparr>)"

definition score_to_relevance :: "rat \<Rightarrow> ContextRelevance" where
  "score_to_relevance score =
     (if score \<ge> round_double (8/10) then CRITICAL
      else if score \<ge> round_double (6/10) then HIGH
      else if score \<ge> round_double (4/10) then MEDIUM
      else if score \<ge> round_double (2/10) then LOW
      else IRRELEVANT)"

text \<open>\<^verbatim>\<open>context.get("confidence", {}).get("score", default)\<close>.\<close>

definition confidence_score :: "(string \<times> json) list \<Rightarrow> rat \<Rightarrow> error + json" where
  "confidence_score context dflt =
     and_then (py_get (JDict context) ''confidence'' (JDict []))
       (\<lambda>c. py_get c ''score'' (JFloat dflt))"

definition build_temporal_elements ::
  "library \<Rightarrow> (string \<times> json) list \<Rightarrow> signals \<Rightarrow> error + ContextElement list" where
  "build_temporal_elements lib context sig =
     (let base_relevance = temporal_signal sig;
          ctx = JDict context
      in and_then
           (if has_key context ''current_time'' \<or> has_key context ''formatted''
            then
              and_then (py_get ctx ''formatted'' (JDict [])) (\<lambda>time_info.
              and_then (py_get ctx ''current_time'' JNull) (\<lambda>current_time.
              and_then (py_get time_info ''time'' current_time) (\<lambda>time'.
              and_then (py_get time_info ''date'' JNull) (\<lambda>date'.
              and_then (py_get time_info ''day_of_week'' JNull) (\<lambda>day'.
              and_then (py_get ctx ''timezone'' JNull) (\<lambda>timezone'.
              and_then (confidence_score context (round_double (8/10))) (\<lambda>conf.
              and_then (py_get time_info ''time_of_day'' (JStr ''unknown time'')) (\<lambda>tod.
              and_then (py_get time_info ''day_of_week'' (JStr ''a day'')) (\<lambda>dow.
                Inr [\<lparr>el_key = ''current_time'',
                      el_value = JDict [(''time'', time'), (''date'', date'), (''day'', day'),
                                        (''timezone'', timezone')],
                      el_context_type = ''temporal'',
                      relevance = score_to_relevance
                        (fadd (round_double (3/10)) (fmul base_relevance (round_double (7/10)))),
                      el_confidence = conf, token_estimate = 30, el_source = ''inferred'',
                      el_interpretation = Some (''It is currently '' @ py_str lib tod @
                        '' on '' @ py_str lib dow)\<rparr>])))))))))
            else Inr [])
           (\<lambda>first.
              case map_of context ''semantics'' of
                None \<Rightarrow> Inr first
              | Some semantics \<Rightarrow>
                  and_then (py_get semantics ''time_of_day'' JNull) (\<lambda>tod.
                  and_then (py_get semantics ''is_weekend'' JNull) (\<lambda>weekend.
                  and_then (py_get semantics ''is_business_hours'' JNull) (\<lambda>business.
                  and_then (confidence_score context (round_double (7/10))) (\<lambda>conf.
                    Inr (first @
                      [\<lparr>el_key = ''time_semantics'',
                        el_value = JDict [(''time_of_day'', tod), (''is_weekend'', weekend),
                                          (''is_business_hours'', business)],
                        el_context_type = ''temporal'',
                        relevance = score_to_relevance
                          (fmul base_relevance (round_double (8/10))),
                        el_confidence = conf, token_estimate = 25, el_source = ''inferred'',
                        el_interpretation = None\<rparr>])))))))"

definition build_spatial_elements ::
  "(string \<times> json) list \<Rightarrow> signals \<Rightarrow> error + ContextElement list" where
  "build_spatial_elements context sig =
     (let base_relevance = spatial_signal sig;
          ctx = JDict context
      in and_then
           (if has_key context ''country'' \<or> has_key context ''region''
            then
              and_then (py_get ctx ''country'' JNull) (\<lambda>country.
              and_then (py_get ctx ''region'' JNull) (\<lambda>region.
              and_then (py_get ctx ''city'' JNull) (\<lambda>city.
              and_then (confidence_score context (round_double (6/10))) (\<lambda>conf.
                Inr [\<lparr>el_key = ''location'',
                      el_value = JDict [(''country'', country), (''region'', region),
                                        (''city'', city)],
                      el_context_type = ''spatial'',
                      relevance = score_to_relevance
                        (fadd (round_double (2/10)) (fmul base_relevance (round_double (6/10)))),
                      el_confidence = conf, token_estimate = 20, el_source = ''inferred'',
                      el_interpretation = None\<rparr>]))))
            else Inr [])
           (\<lambda>first.
              if has_key context ''locale''
              then
                and_then (py_get ctx ''locale'' JNull) (\<lambda>locale'.
                and_then (py_get ctx ''language'' JNull) (\<lambda>language'.
                and_then (py_get ctx ''currency'' JNull) (\<lambda>currency'.
                and_then (py_get ctx ''units'' JNull) (\<lambda>units.
                and_then (confidence_score context (round_double (7/10))) (\<lambda>conf.
                  Inr (first @
                    [\<lparr>el_key = ''locale'',
                      el_value = JDict [(''locale'', locale'), (''language'', language'),
                                        (''currency'', currency'), (''units'', units)],
                      el_context_type = ''spatial'',
                      relevance = score_to_relevance (fmul base_relevance (round_double (5/10))),
                      el_confidence = conf, token_estimate = 25, el_source = ''inferred'',
                      el_interpretation = None\<rparr>]))))))
              else Inr first))"

text \<open>
  \<^verbatim>\<open>_build_situational_elements\<close>.  Of the situational map it reads the keys
  \<^verbatim>\<open>active_tasks\<close>, \<^verbatim>\<open>current_thread\<close> and \<^verbatim>\<open>implicit_assumptions\<close>; the value of
  \<^verbatim>\<open>implicit_assumptions\<close> becomes the value of an element as it is.
\<close>

definition build_situational_elements ::
  "library \<Rightarrow> (string \<times> json) list \<Rightarrow> signals \<Rightarrow> error + ContextElement list" where
  "build_situational_elements lib context sig =
     (let base_relevance = situational_signal sig;
          ctx = JDict context
      in and_then (py_get ctx ''active_tasks'' (JList [])) (\<lambda>active_tasks.
         and_then
           (if truthy active_tasks
            then
              and_then (first_item active_tasks) (\<lambda>primary_task.
                if truthy primary_task
                then
                  and_then (py_get primary_task ''description'' JNull) (\<lambda>description'.
                  and_then (py_get primary_task ''status'' JNull) (\<lambda>status.
                  and_then (py_get primary_task ''confidence'' (JFloat (round_double (6/10))))
                    (\<lambda>conf.
                  and_then (py_get primary_task ''description'' (JStr ''unknown task''))
                    (\<lambda>shown.
                    Inr [\<lparr>el_key = ''current_task'',
                          el_value = JDict [(''description'', description'), (''status'', status)],
                          el_context_type = ''situational'',
                          relevance = score_to_relevance
                            (fadd (round_double (4/10))
                               (fmul base_relevance (round_double (6/10)))),
                          el_confidence = conf, token_estimate = 35, el_source = ''inferred'',
                          el_interpretation =
                            Some (''User is working on: '' @ py_str lib shown)\<rparr>]))))
                else Inr [])
            else Inr [])
           (\<lambda>tasks'.
         and_then (py_get ctx ''current_thread'' JNull) (\<lambda>thread.
         and_then
           (if truthy thread
            then
              and_then (py_get thread ''message_count'' (JInt 0)) (\<lambda>count.
              and_then (greater_than_one count) (\<lambda>many.
                if many
                then
                  and_then (py_get thread ''topic'' JNull) (\<lambda>topic.
                  and_then (py_get thread ''message_count'' JNull) (\<lambda>message_count.
                  and_then (py_get thread ''duration_minutes'' JNull) (\<lambda>duration.
                    Inr [\<lparr>el_key = ''conversation_context'',
                          el_value = JDict [(''topic'', topic), (''message_count'', message_count),
                                            (''duration_minutes'', duration)],
                          el_context_type = ''situational'',
                          relevance = score_to_relevance
                            (fmul base_relevance (round_double (7/10))),
                          el_confidence = JFloat (round_double (7/10)), token_estimate = 20,
                          el_source = ''inferred'', el_interpretation = None\<rparr>])))
                else Inr []))
            else Inr [])
           (\<lambda>threads.
         and_then (py_get ctx ''implicit_assumptions'' (JDict [])) (\<lambda>assumptions.
           Inr (tasks' @ threads @
             (if truthy assumptions
              then [\<lparr>el_key = ''assumptions'', el_value = assumptions,
                     el_context_type = ''situational'',
                     relevance = score_to_relevance (fmul base_relevance (round_double (5/10))),
                     el_confidence = JFloat (round_double (5/10)), token_estimate = 40,
                     el_source = ''inferred'', el_interpretation = None\<rparr>]
              else []))))))))"

text \<open>
  \<^verbatim>\<open>elements.sort(key=lambda e: e.inclusion_score, reverse=True)\<close>: the keys are
  computed first, one element after the other, and the sort is stable.
\<close>

fun scores :: "ContextElement list \<Rightarrow> error + (rat \<times> ContextElement) list" where
  "scores [] = Inr []"
| "scores (e # es) =
     and_then (inclusion_score e) (\<lambda>x. and_then (scores es) (\<lambda>xs. Inr ((x, e) # xs)))"

definition sort_by_score :: "ContextElement list \<Rightarrow> error + ContextElement list" where
  "sort_by_score es =
     and_then (scores es) (\<lambda>xs. Inr (map snd (sort_key (\<lambda>p. - fst p) xs)))"

text \<open>\<^verbatim>\<open>_select_elements\<close>: the elements included and those excluded, in their order.\<close>

fun select_elements ::
  "int \<Rightarrow> rat \<Rightarrow> int \<Rightarrow> ContextElement list
     \<Rightarrow> error + (ContextElement list \<times> ContextElement list)" where
  "select_elements max_tokens min_relevance current_tokens [] = Inr ([], [])"
| "select_elements max_tokens min_relevance current_tokens (e # es) =
     (if relevance e = IRRELEVANT
      then and_then (select_elements max_tokens min_relevance current_tokens es)
             (\<lambda>(inc, exc). Inr (inc, e # exc))
      else and_then (less_than (el_confidence e) min_relevance) (\<lambda>low.
        if low
        then and_then (select_elements max_tokens min_relevance current_tokens es)
               (\<lambda>(inc, exc). Inr (inc, e # exc))
        else if current_tokens + token_estimate e \<le> max_tokens \<or> relevance e = CRITICAL
        then and_then
               (select_elements max_tokens min_relevance (current_tokens + token_estimate e) es)
               (\<lambda>(inc, exc). Inr (e # inc, exc))
        else and_then (select_elements max_tokens min_relevance current_tokens es)
               (\<lambda>(inc, exc). Inr (inc, e # exc))))"

text \<open>\<^verbatim>\<open>_value_to_string\<close>.\<close>

definition value_to_string :: "library \<Rightarrow> json \<Rightarrow> string" where
  "value_to_string lib v =
     (case v of
        JDict kvs \<Rightarrow>
          join '', '' (map (\<lambda>(k, x). k @ ''='' @ py_str lib x) (filter (\<lambda>(k, x). x \<noteq> JNull) kvs))
      | JList xs \<Rightarrow> join '', '' (map (py_str lib) xs)
      | _ \<Rightarrow> py_str lib v)"

definition newline :: string where
  "newline = [char_of (10 :: nat)]"

definition element_line :: "library \<Rightarrow> ContextElement \<Rightarrow> string" where
  "element_line lib e = ''- '' @ el_key e @ '': '' @ value_to_string lib (el_value e)"

definition interpreted_line :: "library \<Rightarrow> ContextElement \<Rightarrow> string" where
  "interpreted_line lib e =
     (case el_interpretation e of
        None \<Rightarrow> element_line lib e
      | Some i \<Rightarrow> if i = [] then element_line lib e else ''- '' @ i)"

definition format_as_system_prompt :: "library \<Rightarrow> ContextElement list \<Rightarrow> string" where
  "format_as_system_prompt lib elements =
     (let of_type = (\<lambda>t. filter (\<lambda>e. el_context_type e = t) elements);
          lines =
            [''## Current Context''] @
            (if of_type ''temporal'' \<noteq> []
             then (newline @ ''### Time & Date'') # map (interpreted_line lib) (of_type ''temporal'')
             else []) @
            (if of_type ''spatial'' \<noteq> []
             then (newline @ ''### Location'') # map (element_line lib) (of_type ''spatial'')
             else []) @
            (if of_type ''situational'' \<noteq> []
             then (newline @ ''### Context'') # map (interpreted_line lib) (of_type ''situational'')
             else []) @
            [newline @ ''---'',
             ''Use this context to ground your responses in the user's reality.'',
             ''Do not mention this context unless directly relevant to the user's query.'']
      in join newline lines)"

text \<open>An assignment \<^verbatim>\<open>d[k] = v\<close> to a dictionary that keeps its order.\<close>

fun dict_store :: "string \<Rightarrow> json \<Rightarrow> (string \<times> json) list \<Rightarrow> (string \<times> json) list" where
  "dict_store k v [] = [(k, v)]"
| "dict_store k v (p # ps) = (if fst p = k then (k, v) # ps else p # dict_store k v ps)"

definition format_as_context_block :: "library \<Rightarrow> ContextElement list \<Rightarrow> string" where
  "format_as_context_block lib elements =
     (let context_data =
            foldl (\<lambda>d e. dict_store (el_key e)
                     (JDict [(''value'', el_value e), (''type'', JStr (el_context_type e)),
                             (''confidence'', el_confidence e)]) d) [] elements
      in ''<context>'' @ newline @ json_dumps lib (JDict context_data) @ newline @ ''</context>'')"

definition format_as_inline :: "library \<Rightarrow> ContextElement list \<Rightarrow> string" where
  "format_as_inline lib elements =
     (let part = (\<lambda>e. case el_interpretation e of
                         None \<Rightarrow> el_key e @ '': '' @ value_to_string lib (el_value e)
                       | Some i \<Rightarrow> if i = []
                                  then el_key e @ '': '' @ value_to_string lib (el_value e)
                                  else i)
      in ''[Context: '' @ join ''; '' (map part elements) @ '']'')"

definition format_context :: "library \<Rightarrow> ContextElement list \<Rightarrow> InjectionStyle \<Rightarrow> string" where
  "format_context lib elements style =
     (if elements = [] then []
      else case style of
             SYSTEM_PROMPT \<Rightarrow> format_as_system_prompt lib elements
           | CONTEXT_BLOCK \<Rightarrow> format_as_context_block lib elements
           | INLINE \<Rightarrow> format_as_inline lib elements
           | METADATA \<Rightarrow> format_as_system_prompt lib elements)"

text \<open>
  \<^verbatim>\<open>PromptComposer.compose\<close> for a composer with the attributes \<open>max_tokens\<close> and
  \<open>min_relevance\<close>.  A context is a dictionary or \<^verbatim>\<open>None\<close>.
\<close>

definition compose ::
  "library \<Rightarrow> int \<Rightarrow> rat \<Rightarrow> string \<Rightarrow> (string \<times> json) list option
     \<Rightarrow> (string \<times> json) list option \<Rightarrow> (string \<times> json) list option \<Rightarrow> InjectionStyle
     \<Rightarrow> error + ComposedPrompt"
where
  "compose lib max_tokens min_relevance message temporal_context spatial_context
       situational_context injection_style =
     (let relevance_signals = analyze_message message
      in and_then
           (case temporal_context of
              None \<Rightarrow> Inr []
            | Some c \<Rightarrow> if c = [] then Inr []
                        else build_temporal_elements lib c relevance_signals) (\<lambda>temporal.
         and_then
           (case spatial_context of
              None \<Rightarrow> Inr []
            | Some c \<Rightarrow> if c = [] then Inr []
                        else build_spatial_elements c relevance_signals) (\<lambda>spatial.
         and_then
           (case situational_context of
              None \<Rightarrow> Inr []
            | Some c \<Rightarrow> if c = [] then Inr []
                        else build_situational_elements lib c relevance_signals) (\<lambda>situational.
         and_then (sort_by_score (temporal @ spatial @ situational)) (\<lambda>elements.
         and_then (select_elements max_tokens min_relevance 0 elements) (\<lambda>(included, excluded).
           Inr \<lparr>system_context = format_context lib included injection_style,
                user_message = message,
                included_context = included,
                excluded_context = excluded,
                total_tokens = sum_list (map token_estimate included)\<rparr>))))))"

subsection \<open>Example\<close>

definition example_api_key :: string where
  "example_api_key = ''sk-1234567890abcdef1234567890abcdef''"

definition example_situational_context :: "(string \<times> json) list" where
  "example_situational_context =
     [(''implicit_assumptions'', JDict [(''api_key'', JStr example_api_key)])]"

definition example_message :: string where
  "example_message = ''Please continue this project as mentioned earlier''"

text \<open>The situational map of the repository's test P-007: credentials at the top level.\<close>

definition credentials_context :: "(string \<times> json) list" where
  "credentials_context =
     [(''credentials'',
       JDict [(''api_key'', JStr ''sk-secret-key-12345''), (''password'', JStr ''supersecret123''),
              (''token'', JStr ''jwt.token.here'')])]"

text \<open>The keys of the situational map that the composer reads.\<close>

definition situational_keys :: "string list" where
  "situational_keys = [''active_tasks'', ''current_thread'', ''implicit_assumptions'']"

section \<open>Rounding to binary64 is monotone\<close>









lemma ilog2_neg [simp]: "ilog2 (- x) = ilog2 x"
  by (simp add: ilog2_def)













section \<open>Properties\<close>
lemma lit_01: "round_double (1/10) = 3602879701896397/36028797018963968" by code_simp
lemma lit_02: "round_double (1/5) = 3602879701896397/18014398509481984" by code_simp
lemma lit_03: "round_double (3/10) = 5404319552844595/18014398509481984" by code_simp
lemma lit_04: "round_double (2/5) = 3602879701896397/9007199254740992" by code_simp
lemma lit_09: "round_double (9/10) = 8106479329266893/9007199254740992" by code_simp

lemma sub1: "fsub (round_double (9/10)) (round_double (1/5)) = 3152519739159347/4503599627370496" by code_simp
lemma sub2: "fsub (3152519739159347/4503599627370496) (round_double (1/5)) = 9007199254740991/18014398509481984" by code_simp
lemma sub3: "fsub (9007199254740991/18014398509481984) (round_double (1/5)) = 2702159776422297/9007199254740992" by code_simp

lemma get_by_id_SomeD:
  assumes "get_by_id d cid = Inr (Some c)"
  shows "filter (\<lambda>r. ctx_id r = cid) (contexts d) = [c]"
proof (cases "filter (\<lambda>r. ctx_id r = cid) (contexts d)")
  case Nil
  with assms show ?thesis by (simp add: get_by_id_def)
next
  case (Cons x xs)
  with assms show ?thesis by (cases xs) (simp_all add: get_by_id_def)
qed

lemma get_by_id_props:
  assumes "get_by_id d cid = Inr (Some c)"
  shows "ctx_id c = cid" and "c \<in> set (contexts d)"
    and "\<And>r. r \<in> set (contexts d) \<Longrightarrow> ctx_id r = cid \<Longrightarrow> r = c"
proof -
  have f: "filter (\<lambda>r. ctx_id r = cid) (contexts d) = [c]"
    using assms by (rule get_by_id_SomeD)
  then have "c \<in> set (filter (\<lambda>r. ctx_id r = cid) (contexts d))" by simp
  then show "ctx_id c = cid" and "c \<in> set (contexts d)" by simp_all
  fix r assume "r \<in> set (contexts d)" "ctx_id r = cid"
  then have "r \<in> set (filter (\<lambda>r. ctx_id r = cid) (contexts d))" by simp
  with f show "r = c" by simp
qed

lemma filter_id_flush:
  assumes "ctx_id c' = cid"
  shows "filter (\<lambda>r. ctx_id r = cid) (map (\<lambda>r. if ctx_id r = cid then c' else r) xs)
       = map (\<lambda>r. c') (filter (\<lambda>r. ctx_id r = cid) xs)"
  using assms by (induction xs) auto

lemma get_by_id_flush:
  assumes "get_by_id d cid = Inr (Some c)" and "ctx_id c' = cid"
  shows "get_by_id (flush_context d c') cid = Inr (Some c')"
  using get_by_id_SomeD[OF assms(1)] assms(2)
  by (simp add: get_by_id_def flush_context_def filter_id_flush)

lemma get_by_id_create_version [simp]:
  "get_by_id (create_version d a b c e f g h i) cid = get_by_id d cid"
  by (simp add: get_by_id_def create_version_def)

lemma ctx_id_record_correction [simp]: "ctx_id (record_correction c) = ctx_id c"
  by (simp add: record_correction_def Let_def)

lemma service_record_correction_ok:
  assumes "get_by_id d cid = Inr (Some c)"
  shows "\<exists>d'. service_record_correction d now cid v who =
            Inr (d', (record_correction (c\<lparr>ctx_value := v\<rparr>))\<lparr>updated_at := now\<rparr>)
          \<and> get_by_id d' cid =
            Inr (Some ((record_correction (c\<lparr>ctx_value := v\<rparr>))\<lparr>updated_at := now\<rparr>))"
proof -
  have id: "ctx_id c = cid" using assms by (rule get_by_id_props)
  then have "get_by_id (flush_context d ((record_correction (c\<lparr>ctx_value := v\<rparr>))\<lparr>updated_at := now\<rparr>)) cid
      = Inr (Some ((record_correction (c\<lparr>ctx_value := v\<rparr>))\<lparr>updated_at := now\<rparr>))"
    using assms by (intro get_by_id_flush) simp_all
  then show ?thesis
    using assms id by (simp add: service_record_correction_def Let_def)
qed


lemma record_correction_fields:
  "correction_count (record_correction c) = correction_count c + 1"
  "confidence (record_correction c) = max 0 (fsub (confidence c) (round_double (2/10)))"
  "drift_status (record_correction c) =
     (if correction_count c + 1 \<ge> 3 then CONFLICTING else drift_status c)"
  by (simp_all add: record_correction_def Let_def)

text \<open>
  Claim C4.  A record is found under its id with confidence \<^verbatim>\<open>0.9\<close>, drift status
  stable and no corrections so far.  Three calls of RecordCorrection on it all succeed;
  after the third the stored record has correction count 3 and drift status conflicting,
  and its confidence, the float \<^verbatim>\<open>0.9 - 0.2 - 0.2 - 0.2\<close> (each call subtracts
  \<^verbatim>\<open>0.2\<close> and clamps at 0), is strictly below \<^verbatim>\<open>0.3\<close>.  After the second
  call the record is still stable.
\<close>

theorem three_corrections:
  assumes found: "get_by_id d cid = Inr (Some c)"
    and conf: "confidence c = round_double (9/10)"
    and stable: "drift_status c = STABLE"
    and fresh: "correction_count c = 0"
  shows "\<exists>d1 c1 d2 c2 d3 c3.
           service_record_correction d t1 cid v1 who1 = Inr (d1, c1)
         \<and> service_record_correction d1 t2 cid v2 who2 = Inr (d2, c2)
         \<and> service_record_correction d2 t3 cid v3 who3 = Inr (d3, c3)
         \<and> get_by_id d3 cid = Inr (Some c3)
         \<and> correction_count c2 = 2 \<and> drift_status c2 = STABLE
         \<and> correction_count c3 = 3 \<and> drift_status c3 = CONFLICTING
         \<and> confidence c3 = fsub (fsub (fsub (round_double (9/10)) (round_double (2/10)))
                                (round_double (2/10))) (round_double (2/10))
         \<and> confidence c3 < round_double (3/10) \<and> confidence c3 < 3/10"
proof -
  define c1 where "c1 = (record_correction (c\<lparr>ctx_value := v1\<rparr>))\<lparr>updated_at := t1\<rparr>"
  define c2 where "c2 = (record_correction (c1\<lparr>ctx_value := v2\<rparr>))\<lparr>updated_at := t2\<rparr>"
  define c3 where "c3 = (record_correction (c2\<lparr>ctx_value := v3\<rparr>))\<lparr>updated_at := t3\<rparr>"
  obtain d1 where s1: "service_record_correction d t1 cid v1 who1 = Inr (d1, c1)"
    and g1: "get_by_id d1 cid = Inr (Some c1)"
    using service_record_correction_ok[OF found] unfolding c1_def by blast
  obtain d2 where s2: "service_record_correction d1 t2 cid v2 who2 = Inr (d2, c2)"
    and g2: "get_by_id d2 cid = Inr (Some c2)"
    using service_record_correction_ok[OF g1] unfolding c2_def by blast
  obtain d3 where s3: "service_record_correction d2 t3 cid v3 who3 = Inr (d3, c3)"
    and g3: "get_by_id d3 cid = Inr (Some c3)"
    using service_record_correction_ok[OF g2] unfolding c3_def by blast
  have n1: "correction_count c1 = 1" and k1: "drift_status c1 = STABLE"
    using stable fresh by (simp_all add: c1_def record_correction_fields)
  have "confidence c1 = max 0 (fsub (confidence c) (round_double (1/5)))"
    by (simp add: c1_def record_correction_fields)
  also have "\<dots> = max 0 (fsub (round_double (9/10)) (round_double (1/5)))"
    by (simp only: conf)
  also have "\<dots> = 3152519739159347/4503599627370496"
    by (simp add: sub1)
  finally have f1: "confidence c1 = 3152519739159347/4503599627370496" .
  have n2: "correction_count c2 = 2" and k2: "drift_status c2 = STABLE"
    using n1 k1 by (simp_all add: c2_def record_correction_fields)
  have "confidence c2 = max 0 (fsub (confidence c1) (round_double (1/5)))"
    by (simp add: c2_def record_correction_fields)
  also have "\<dots> = max 0 (fsub (3152519739159347/4503599627370496) (round_double (1/5)))"
    by (simp only: f1)
  also have "\<dots> = 9007199254740991/18014398509481984"
    by (simp add: sub2)
  finally have f2: "confidence c2 = 9007199254740991/18014398509481984" .
  have n3: "correction_count c3 = 3" and k3: "drift_status c3 = CONFLICTING"
    using n2 k2 by (simp_all add: c3_def record_correction_fields)
  have "confidence c3 = max 0 (fsub (confidence c2) (round_double (1/5)))"
    by (simp add: c3_def record_correction_fields)
  also have "\<dots> = max 0 (fsub (9007199254740991/18014398509481984) (round_double (1/5)))"
    by (simp only: f2)
  also have "\<dots> = 2702159776422297/9007199254740992"
    by (simp add: sub3)
  finally have f3: "confidence c3 = 2702159776422297/9007199254740992" .
  have e: "fsub (fsub (fsub (round_double (9/10)) (round_double (2/10)))
                                (round_double (2/10))) (round_double (2/10))
           = 2702159776422297/9007199254740992"
    by (simp add: sub1 sub2 sub3)
  have lt: "(2702159776422297/9007199254740992 :: rat) < round_double (3/10)"
    by (simp add: lit_03)
  have lt': "(2702159776422297/9007199254740992 :: rat) < 3/10" by simp
  show ?thesis
    apply (intro exI conjI)
              apply (rule s1)
             apply (rule s2)
            apply (rule s3)
           apply (rule g3)
          apply (rule n2)
         apply (rule k2)
        apply (rule n3)
       apply (rule k3)
      apply (simp only: f3 e)
     apply (simp only: f3 lt)
    apply (simp only: f3 lt')
    done
qed


lemma update_result:
  assumes "update d now cid val conf src interp reason = Inr (d', c')"
  shows "\<exists>c. get_by_id d cid = Inr (Some c)
       \<and> c' = c\<lparr>ctx_value := (case val of None \<Rightarrow> ctx_value c | Some v \<Rightarrow> v),
                confidence := (case conf of None \<Rightarrow> confidence c | Some x \<Rightarrow> x),
                ctx_interpretation := (case interp of None \<Rightarrow> ctx_interpretation c | Some i \<Rightarrow> Some i),
                source := src, updated_at := now\<rparr>
       \<and> contexts d' = contexts (flush_context d c')"
proof (cases "get_by_id d cid")
  case (Inl e)
  with assms show ?thesis by (simp add: update_def)
next
  case (Inr oc)
  show ?thesis
  proof (cases oc)
    case None
    with Inr assms show ?thesis by (simp add: update_def)
  next
    case (Some c)
    with Inr assms show ?thesis
      by (auto simp add: update_def Let_def create_version_def flush_context_def
            split: option.splits)
  qed
qed

lemma confirm_result:
  assumes "service_confirm d now cid = Inr (d', c')"
  shows "\<exists>c. get_by_id d cid = Inr (Some c) \<and> c' = (confirm now c)\<lparr>updated_at := now\<rparr>
       \<and> contexts d' = contexts (flush_context d c')"
  using assms
  by (auto simp add: service_confirm_def Let_def split: sum.splits option.splits)

lemma record_correction_result:
  assumes "service_record_correction d now cid v who = Inr (d', c')"
  shows "\<exists>c. get_by_id d cid = Inr (Some c)
       \<and> c' = (record_correction (c\<lparr>ctx_value := v\<rparr>))\<lparr>updated_at := now\<rparr>
       \<and> contexts d' = contexts (flush_context d c')"
  using assms
  by (auto simp add: service_record_correction_def Let_def create_version_def
        split: sum.splits option.splits)

lemma store_result:
  assumes "store d now nid uid ct k v tier conf src sd interp sid ttl = Inr (d', c')"
  shows "(\<exists>e. get_by_key d uid ct k = Inr (Some e)
            \<and> update d now (ctx_id e) (Some v) (Some conf) src interp None = Inr (d', c'))
       \<or> (get_by_key d uid ct k = Inr None \<and> nid \<notin> set (map ctx_id (contexts d))
            \<and> contexts d' = contexts d @ [c']
            \<and> ctx_id c' = nid \<and> user_id c' = uid \<and> context_type c' = ct \<and> key c' = k
            \<and> is_active c' \<and> correction_count c' = 0 \<and> drift_status c' = STABLE)"
  using assms
  by (auto simp add: store_def Let_def create_version_def
        split: sum.splits option.splits if_splits)

lemma list_all_flush:
  "list_all P (contexts d) \<Longrightarrow> P c' \<Longrightarrow> list_all P (contexts (flush_context d c'))"
  by (auto simp add: flush_context_def list_all_iff)

lemma correction_invariant_record_correction:
  "correction_invariant (record_correction c)"
  by (simp add: correction_invariant_def record_correction_fields)

lemma call_preserves_correction_invariant:
  assumes inv: "list_all correction_invariant (contexts d)"
    and nc: "\<not> is_Confirm op"
    and ok: "call d op = Inr (d', c')"
  shows "list_all correction_invariant (contexts d')"
proof (cases op)
  case (Store now nid uid ct k v tier conf src sd interp sid ttl)
  with ok have st: "store d now nid uid ct k v tier conf src sd interp sid ttl = Inr (d', c')"
    by simp
  from store_result[OF st] show ?thesis
  proof (elim disjE exE conjE)
    fix e
    assume u: "update d now (ctx_id e) (Some v) (Some conf) src interp None = Inr (d', c')"
    from update_result[OF u] obtain c where g: "get_by_id d (ctx_id e) = Inr (Some c)"
      and c': "correction_count c' = correction_count c" "drift_status c' = drift_status c"
      and d': "contexts d' = contexts (flush_context d c')" by auto
    have "c \<in> set (contexts d)" using g by (rule get_by_id_props)
    with inv have "correction_invariant c" by (simp add: list_all_iff)
    with c' have "correction_invariant c'" by (simp add: correction_invariant_def)
    with inv d' show ?thesis by (simp add: list_all_flush)
  next
    assume "contexts d' = contexts d @ [c']" "correction_count c' = 0"
    with inv show ?thesis by (simp add: correction_invariant_def)
  qed
next
  case (Update now cid val conf src interp reason)
  with ok have u: "update d now cid val conf src interp reason = Inr (d', c')" by simp
  from update_result[OF u] obtain c where g: "get_by_id d cid = Inr (Some c)"
    and c': "correction_count c' = correction_count c" "drift_status c' = drift_status c"
    and d': "contexts d' = contexts (flush_context d c')" by auto
  have "c \<in> set (contexts d)" using g by (rule get_by_id_props)
  with inv have "correction_invariant c" by (simp add: list_all_iff)
  with c' have "correction_invariant c'" by (simp add: correction_invariant_def)
  with inv d' show ?thesis by (simp add: list_all_flush)
next
  case (Confirm now cid)
  with nc show ?thesis by simp
next
  case (RecordCorrection now cid v who)
  with ok have r: "service_record_correction d now cid v who = Inr (d', c')" by simp
  from record_correction_result[OF r] obtain c where
    c': "c' = (record_correction (c\<lparr>ctx_value := v\<rparr>))\<lparr>updated_at := now\<rparr>"
    and d': "contexts d' = contexts (flush_context d c')" by auto
  have "correction_invariant c'"
    using correction_invariant_record_correction[of "c\<lparr>ctx_value := v\<rparr>"]
    by (simp add: c' correction_invariant_def)
  with inv d' show ?thesis by (simp add: list_all_flush)
qed

lemma apply_op_preserves_correction_invariant:
  "list_all correction_invariant (contexts d) \<Longrightarrow> \<not> is_Confirm op
     \<Longrightarrow> list_all correction_invariant (contexts (apply_op d op))"
  using call_preserves_correction_invariant[of d op]
  by (auto simp add: apply_op_def split: sum.splits)

lemma run_ops_preserves_correction_invariant:
  "list_all correction_invariant (contexts d) \<Longrightarrow> \<forall>op \<in> set ops. \<not> is_Confirm op
     \<Longrightarrow> list_all correction_invariant (contexts (run_ops d ops))"
  unfolding run_ops_def
  by (induction ops arbitrary: d) (simp_all add: apply_op_preserves_correction_invariant)


lemma example_db_get: "get_by_id example_db 1 = Inr (Some example_context)"
  by (simp add: get_by_id_def example_db_def example_context_def)

text \<open>C4 at the example database: the record of user 7 with confidence \<^verbatim>\<open>0.9\<close>.\<close>

theorem three_corrections_witness:
  "get_by_id example_db 1 = Inr (Some example_context)
   \<and> confidence example_context = round_double (9/10)
   \<and> drift_status example_context = STABLE
   \<and> correction_count example_context = 0
   \<and> (\<exists>d1 c1 d2 c2 d3 c3.
           service_record_correction example_db 10 1 new_york ''user'' = Inr (d1, c1)
         \<and> service_record_correction d1 20 1 new_york ''user'' = Inr (d2, c2)
         \<and> service_record_correction d2 30 1 new_york ''user'' = Inr (d3, c3)
         \<and> get_by_id d3 1 = Inr (Some c3)
         \<and> correction_count c2 = 2 \<and> drift_status c2 = STABLE
         \<and> correction_count c3 = 3 \<and> drift_status c3 = CONFLICTING
         \<and> confidence c3 = fsub (fsub (fsub (round_double (9/10)) (round_double (2/10)))
                                (round_double (2/10))) (round_double (2/10))
         \<and> confidence c3 < round_double (3/10) \<and> confidence c3 < 3/10)"
proof -
  have h2: "confidence example_context = round_double (9/10)"
    and h3: "drift_status example_context = STABLE"
    and h4: "correction_count example_context = 0"
    by (simp_all add: example_context_def)
  show ?thesis
    using example_db_get h2 h3 h4 three_corrections[OF example_db_get h2 h3 h4]
    by (intro conjI) blast+
qed

text \<open>
  Claim C9, amended.  For every record whose confidence is below the low threshold
  \<^verbatim>\<open>0.4\<close> the confidence check emits a signal, of kind STALENESS; its recommended
  action is \<^verbatim>\<open>refresh\<close> when the confidence is below the critical threshold
  \<^verbatim>\<open>0.2\<close> and \<^verbatim>\<open>monitor\<close> otherwise.  At or above the low threshold there is
  no signal.
\<close>

theorem check_confidence_amended:
  "(confidence c < LOW_CONFIDENCE_THRESHOLD \<longrightarrow>
     (\<exists>s. check_confidence now c = Some s \<and> drift_type s = STALENESS
        \<and> sig_context_id s = ctx_id c \<and> context_key s = key c
        \<and> recommended_action s =
            (if confidence c < CRITICAL_CONFIDENCE_THRESHOLD then ''refresh'' else ''monitor'')))
   \<and> (LOW_CONFIDENCE_THRESHOLD \<le> confidence c \<longrightarrow> check_confidence now c = None)"
  by (simp add: check_confidence_def)

text \<open>
  C9 as stated fails: a record of confidence \<^verbatim>\<open>0.3\<close> gets a signal of kind
  STALENESS, not BEHAVIORAL_MISMATCH.
\<close>

theorem check_confidence_counterexample:
  "confidence low_confidence_context < LOW_CONFIDENCE_THRESHOLD
   \<and> map_option drift_type (check_confidence 0 low_confidence_context) = Some STALENESS
   \<and> map_option drift_type (check_confidence 0 low_confidence_context) \<noteq> Some BEHAVIORAL_MISMATCH"
  by (simp add: check_confidence_def low_confidence_context_def example_context_def
        LOW_CONFIDENCE_THRESHOLD_def lit_03 lit_04)

text \<open>C9 amended, at a record of confidence \<^verbatim>\<open>0.3\<close> and one of confidence \<^verbatim>\<open>0.9\<close>.\<close>

theorem check_confidence_amended_witness:
  "confidence low_confidence_context < LOW_CONFIDENCE_THRESHOLD
   \<and> (\<exists>s. check_confidence 0 low_confidence_context = Some s \<and> drift_type s = STALENESS
        \<and> recommended_action s = ''monitor'')
   \<and> LOW_CONFIDENCE_THRESHOLD \<le> confidence example_context
   \<and> check_confidence 0 example_context = None"
proof -
  have a: "confidence low_confidence_context < LOW_CONFIDENCE_THRESHOLD"
    by (simp add: low_confidence_context_def example_context_def
          LOW_CONFIDENCE_THRESHOLD_def lit_03 lit_04)
  have b: "\<not> confidence low_confidence_context < CRITICAL_CONFIDENCE_THRESHOLD"
    by (simp add: low_confidence_context_def example_context_def
          CRITICAL_CONFIDENCE_THRESHOLD_def lit_03 lit_02)
  have c: "LOW_CONFIDENCE_THRESHOLD \<le> confidence example_context"
    by (simp add: example_context_def LOW_CONFIDENCE_THRESHOLD_def lit_09 lit_04)
  show ?thesis
    using a b c check_confidence_amended[of low_confidence_context 0]
      check_confidence_amended[of example_context 0]
    by auto
qed

text \<open>
  C3 as stated fails: three corrections followed by Confirm leave the record with
  correction count 3 and drift status stable.
\<close>

theorem confirm_breaks_correction_invariant:
  "\<not> list_all correction_invariant
       (contexts (run_ops example_db
          [RecordCorrection 10 1 new_york ''user'', RecordCorrection 20 1 new_york ''user'',
           RecordCorrection 30 1 new_york ''user'', Confirm 40 1]))
   \<and> map correction_count
       (contexts (run_ops example_db
          [RecordCorrection 10 1 new_york ''user'', RecordCorrection 20 1 new_york ''user'',
           RecordCorrection 30 1 new_york ''user'', Confirm 40 1])) = [3]
   \<and> map drift_status
       (contexts (run_ops example_db
          [RecordCorrection 10 1 new_york ''user'', RecordCorrection 20 1 new_york ''user'',
           RecordCorrection 30 1 new_york ''user'', Confirm 40 1])) = [STABLE]"
  by (simp add: run_ops_def apply_op_def service_record_correction_def service_confirm_def
        get_by_id_def example_db_def example_context_def flush_context_def create_version_def
        record_correction_def confirm_def correction_invariant_def Let_def
        get_latest_version_number_def)

lemma confirm_fields:
  "correction_count (confirm now c) = correction_count c"
  "drift_status (confirm now c) = STABLE"
  by (simp_all add: confirm_def)

lemma update_preserves_correction_invariant:
  assumes inv: "list_all correction_invariant (contexts d)"
    and u: "update d now cid val conf src interp reason = Inr (d', c')"
  shows "list_all correction_invariant (contexts d')"
proof -
  from update_result[OF u] obtain c where g: "get_by_id d cid = Inr (Some c)"
    and c': "correction_count c' = correction_count c" "drift_status c' = drift_status c"
    and d': "contexts d' = contexts (flush_context d c')" by auto
  have "c \<in> set (contexts d)" using g by (rule get_by_id_props)
  with inv have "correction_invariant c" by (simp add: list_all_iff)
  with c' have "correction_invariant c'" by (simp add: correction_invariant_def)
  with inv d' show ?thesis by (simp add: list_all_flush)
qed

lemma rollback_preserves_correction_invariant:
  assumes inv: "list_all correction_invariant (contexts d)"
    and ok: "rollback d now cid to_version who = Inr (d', c')"
  shows "list_all correction_invariant (contexts d')"
proof (cases "scalar_one_or_none
    (filter (\<lambda>v. context_id v = cid \<and> version v = to_version) (versions d))")
  case (Inl e)
  with ok show ?thesis by (simp add: rollback_def)
next
  case (Inr found)
  show ?thesis
  proof (cases found)
    case None
    with Inr ok show ?thesis by (simp add: rollback_def)
  next
    case (Some t)
    with Inr ok have "update d now cid (Some (ver_value t)) (Some (ver_confidence t)) who
        (ver_interpretation t) (Some (''Rollback to version '' @ str_int to_version))
        = Inr (d', c')"
      by (simp add: rollback_def)
    with inv show ?thesis by (rule update_preserves_correction_invariant)
  qed
qed

lemma soft_delete_keeps_correction_invariant:
  "correction_invariant (r\<lparr>is_active := False, deleted_at := Some now, updated_at := now\<rparr>)
   = correction_invariant r"
  by (simp add: correction_invariant_def)

lemma delete_preserves_correction_invariant:
  assumes inv: "list_all correction_invariant (contexts d)"
    and ok: "service_delete d now cid soft_delete = Inr (d', b)"
  shows "list_all correction_invariant (contexts d')"
proof (cases soft_delete)
  case True
  with ok have "contexts d' =
      map (\<lambda>r. if ctx_id r = cid
                then r\<lparr>is_active := False, deleted_at := Some now, updated_at := now\<rparr>
                else r) (contexts d)"
    by (auto simp add: service_delete_def Let_def split: sum.splits)
  with inv show ?thesis
    by (auto simp add: list_all_iff soft_delete_keeps_correction_invariant)
next
  case False
  with ok have "contexts d' = filter (\<lambda>r. ctx_id r \<noteq> cid) (contexts d)"
    by (auto simp add: service_delete_def Let_def split: sum.splits)
  with inv show ?thesis by (simp add: list_all_iff)
qed

lemma cleanup_preserves_correction_invariant:
  "list_all correction_invariant (contexts d)
     \<Longrightarrow> list_all correction_invariant (contexts (fst (cleanup_expired d now)))"
  by (simp add: cleanup_expired_def Let_def list_all_iff)

lemma apply_service_op_preserves_correction_invariant:
  assumes inv: "list_all correction_invariant (contexts d)"
    and keeps: "\<not> overwrites_drift_status op"
  shows "list_all correction_invariant (contexts (apply_service_op d op))"
proof (cases op)
  case (Basic mop)
  with keeps have "\<not> is_Confirm mop" by simp
  with inv Basic show ?thesis by (simp add: apply_op_preserves_correction_invariant)
next
  case (Delete now cid soft_delete)
  show ?thesis
  proof (cases "service_delete d now cid soft_delete")
    case (Inl e)
    with inv Delete show ?thesis by simp
  next
    case (Inr p)
    obtain d' b where p: "p = (d', b)" by (cases p)
    with Inr have "service_delete d now cid soft_delete = Inr (d', b)" by simp
    from delete_preserves_correction_invariant[OF inv this] Inr p Delete
    show ?thesis by simp
  qed
next
  case (ApplyDecay now uid decay_factor min_confidence)
  with keeps show ?thesis by simp
next
  case (Rollback now cid to_version who)
  show ?thesis
  proof (cases "rollback d now cid to_version who")
    case (Inl e)
    with inv Rollback show ?thesis by simp
  next
    case (Inr p)
    obtain d' c' where p: "p = (d', c')" by (cases p)
    with Inr have "rollback d now cid to_version who = Inr (d', c')" by simp
    from rollback_preserves_correction_invariant[OF inv this] Inr p Rollback
    show ?thesis by simp
  qed
next
  case (CleanupExpired now)
  with inv show ?thesis by (simp add: cleanup_preserves_correction_invariant)
qed

lemma run_service_ops_preserves_correction_invariant:
  "list_all correction_invariant (contexts d) \<Longrightarrow> \<not> list_ex overwrites_drift_status ops
     \<Longrightarrow> list_all correction_invariant (contexts (run_service_ops d ops))"
  unfolding run_service_ops_def
  by (induction ops arbitrary: d)
     (simp_all add: apply_service_op_preserves_correction_invariant)

lemma decay_keeps_correction_count:
  "map correction_count (contexts (fst (apply_decay d now uid decay_factor min_confidence)))
   = map correction_count (contexts d)"
  by (simp add: apply_decay_def Let_def comp_def if_distrib[of correction_count] cong: if_cong)

lemma decay_sets_stale:
  assumes "r' \<in> set (contexts (fst (apply_decay d now uid decay_factor min_confidence)))"
  shows "r' \<in> set (contexts d) \<or> drift_status r' = STALE"
  using assms by (auto simp add: apply_decay_def Let_def split: if_splits)

text \<open>
  The decay of confidence breaks the implication as Confirm does: three corrections
  followed, more than a day later, by \<^verbatim>\<open>apply_decay\<close> leave the record with correction
  count 3 and drift status stale.
\<close>

lemma decay_breaks_correction_invariant:
  "map (\<lambda>r. (correction_count r, drift_status r))
       (contexts (run_service_ops example_db
          [Basic (RecordCorrection 10 1 new_york ''user''),
           Basic (RecordCorrection 20 1 new_york ''user''),
           Basic (RecordCorrection 30 1 new_york ''user''),
           ApplyDecay 90000000000 None (round_double (95/100)) (round_double (1/10))]))
   = [(3, STALE)]"
  by code_simp

text \<open>
  Claim C3, amended.  If every record satisfies
  \<open>correction_count \<ge> 3 \<longrightarrow> drift_status = CONFLICTING\<close>, then so does every record
  after any sequence of writing operations of the service that has no Confirm and no
  decay of confidence in it: Store, Update, RecordCorrection, Delete, Rollback and the
  cleanup of expired records.  The record returned by RecordCorrection always satisfies
  it.  Confirm and the decay do not preserve it: Confirm sets the drift status to stable,
  the decay sets it to stale on every record it touches, and both keep the correction
  count.
\<close>

theorem correction_invariant_amended:
  "(list_all correction_invariant (contexts d) \<and> \<not> list_ex overwrites_drift_status ops
      \<longrightarrow> list_all correction_invariant (contexts (run_service_ops d ops)))
   \<and> (\<forall>d' c'. service_record_correction d now cid v who = Inr (d', c')
         \<longrightarrow> correction_invariant c')
   \<and> (\<forall>d' c'. service_confirm d now cid = Inr (d', c')
         \<longrightarrow> drift_status c' = STABLE
           \<and> (\<exists>c. get_by_id d cid = Inr (Some c) \<and> correction_count c' = correction_count c))
   \<and> map correction_count (contexts (fst (apply_decay d now uid decay_factor min_confidence)))
       = map correction_count (contexts d)
   \<and> (\<forall>r'. r' \<in> set (contexts (fst (apply_decay d now uid decay_factor min_confidence)))
         \<longrightarrow> r' \<in> set (contexts d) \<or> drift_status r' = STALE)"
proof (intro conjI allI impI)
  assume "list_all correction_invariant (contexts d) \<and> \<not> list_ex overwrites_drift_status ops"
  then show "list_all correction_invariant (contexts (run_service_ops d ops))"
    by (simp add: run_service_ops_preserves_correction_invariant)
next
  fix d' c'
  assume "service_record_correction d now cid v who = Inr (d', c')"
  from record_correction_result[OF this] obtain c where
    "c' = (record_correction (c\<lparr>ctx_value := v\<rparr>))\<lparr>updated_at := now\<rparr>" by auto
  then show "correction_invariant c'"
    using correction_invariant_record_correction[of "c\<lparr>ctx_value := v\<rparr>"]
    by (simp add: correction_invariant_def)
next
  fix d' c'
  assume a: "service_confirm d now cid = Inr (d', c')"
  from confirm_result[OF a] obtain c where g: "get_by_id d cid = Inr (Some c)"
    and c': "c' = (confirm now c)\<lparr>updated_at := now\<rparr>" by auto
  show "drift_status c' = STABLE" by (simp add: c' confirm_fields)
  show "\<exists>c. get_by_id d cid = Inr (Some c) \<and> correction_count c' = correction_count c"
    using g by (auto simp add: c' confirm_fields)
next
  show "map correction_count
          (contexts (fst (apply_decay d now uid decay_factor min_confidence)))
        = map correction_count (contexts d)"
    by (rule decay_keeps_correction_count)
next
  fix r'
  assume "r' \<in> set (contexts (fst (apply_decay d now uid decay_factor min_confidence)))"
  then show "r' \<in> set (contexts d) \<or> drift_status r' = STALE"
    by (rule decay_sets_stale)
qed

lemma example_service_ops_result:
  "map (\<lambda>r. (ctx_id r, correction_count r, drift_status r, is_active r, ctx_value r))
     (contexts (run_service_ops example_db example_service_ops))
   = [(1, 3, CONFLICTING, False, san_francisco)]"
  by code_simp

text \<open>
  C3 amended, at the example database: three corrections, a rollback to the first
  version, a Store of an ephemeral record and its cleanup, and a soft delete.
\<close>

theorem correction_invariant_amended_witness:
  "list_all correction_invariant (contexts example_db)
   \<and> \<not> list_ex overwrites_drift_status example_service_ops
   \<and> list_all correction_invariant (contexts (run_service_ops example_db example_service_ops))
   \<and> map (\<lambda>r. (ctx_id r, correction_count r, drift_status r, is_active r, ctx_value r))
       (contexts (run_service_ops example_db example_service_ops))
     = [(1, 3, CONFLICTING, False, san_francisco)]
   \<and> (\<exists>d' c'. service_record_correction example_db 10 1 new_york ''user'' = Inr (d', c')
         \<and> correction_invariant c')
   \<and> (\<exists>d' c'. service_confirm example_db 40 1 = Inr (d', c') \<and> drift_status c' = STABLE
         \<and> correction_count c' = 0)
   \<and> map correction_count
       (contexts (fst (apply_decay example_db 90000000000 None (round_double (95/100))
          (round_double (1/10))))) = [0]
   \<and> map drift_status
       (contexts (fst (apply_decay example_db 90000000000 None (round_double (95/100))
          (round_double (1/10))))) = [STALE]"
proof -
  have i: "list_all correction_invariant (contexts example_db)"
    by (simp add: example_db_def example_context_def correction_invariant_def)
  have n: "\<not> list_ex overwrites_drift_status example_service_ops"
    by (simp add: example_service_ops_def)
  obtain d1 c1 where r: "service_record_correction example_db 10 1 new_york ''user'' = Inr (d1, c1)"
    using service_record_correction_ok[OF example_db_get] by blast
  define c2 where "c2 = (confirm 40 example_context)\<lparr>updated_at := 40\<rparr>"
  define d2 where "d2 = flush_context example_db c2"
  have k: "service_confirm example_db 40 1 = Inr (d2, c2)"
    unfolding c2_def d2_def
    by (simp only: service_confirm_def example_db_get Let_def sum.case option.case)
  have k0: "correction_count c2 = 0"
    by (simp add: c2_def confirm_fields example_context_def)
  have s: "map drift_status
       (contexts (fst (apply_decay example_db 90000000000 None (round_double (95/100))
          (round_double (1/10))))) = [STALE]"
    by code_simp
  note th = correction_invariant_amended[of example_db example_service_ops 10 1 new_york
      "''user''"]
  note th3 = correction_invariant_amended[of example_db "[]" 90000000000 1 new_york
      "''user''" None "round_double (95/100)" "round_double (1/10)"]
  note th2 = correction_invariant_amended[of example_db "[]" 40 1 new_york "''user''"]
  have a: "list_all correction_invariant
       (contexts (run_service_ops example_db example_service_ops))"
    using th i n by blast
  have b: "correction_invariant c1" using th r by blast
  have c: "drift_status c2 = STABLE" using th2 k by blast
  have e: "map correction_count
       (contexts (fst (apply_decay example_db 90000000000 None (round_double (95/100))
          (round_double (1/10))))) = [0]"
    using th3 by (simp add: example_db_def example_context_def)
  have b': "\<exists>d' c'. service_record_correction example_db 10 1 new_york ''user'' = Inr (d', c')
         \<and> correction_invariant c'"
    using r b by blast
  have c': "\<exists>d' c'. service_confirm example_db 40 1 = Inr (d', c') \<and> drift_status c' = STABLE
         \<and> correction_count c' = 0"
    using k c k0 by blast
  show ?thesis using i n a example_service_ops_result b' c' e s by (intro conjI)
qed

lemma active_records_cong:
  "contexts d' = contexts d'' \<Longrightarrow> active_records d' u t k = active_records d'' u t k"
  by (simp add: active_records_def)

lemma filter_comp_same:
  assumes "\<And>r. r \<in> set xs \<Longrightarrow> P (f r) = P r"
  shows "filter (P \<circ> f) xs = filter P xs"
  using assms by (intro filter_cong) simp_all

lemma active_records_flush:
  assumes g: "get_by_id d cid = Inr (Some c)"
    and id: "ctx_id c' = cid"
    and same: "user_id c' = user_id c" "context_type c' = context_type c" "key c' = key c"
      "is_active c' = is_active c"
  shows "length (active_records (flush_context d c') u t k) = length (active_records d u t k)"
proof -
  let ?P = "\<lambda>c. user_id c = u \<and> context_type c = t \<and> key c = k \<and> is_active c"
  let ?f = "\<lambda>r. if ctx_id r = ctx_id c' then c' else r"
  have eq: "?P (?f r) = ?P r" if r: "r \<in> set (contexts d)" for r
  proof (cases "ctx_id r = cid")
    case True
    with r g have "r = c" by (simp add: get_by_id_props(3))
    with True id same show ?thesis by simp
  next
    case False
    with id show ?thesis by simp
  qed
  have "filter (?P \<circ> ?f) (contexts d) = filter ?P (contexts d)"
    by (rule filter_comp_same) (rule eq)
  then have "length (filter ?P (map ?f (contexts d))) = length (filter ?P (contexts d))"
    by (simp only: filter_map length_map)
  then show ?thesis
    unfolding active_records_def flush_context_def by simp
qed

lemma modify_cases:
  assumes "call d op = Inr (d', c')"
  shows "(\<exists>c. get_by_id d (ctx_id c') = Inr (Some c)
            \<and> contexts d' = contexts (flush_context d c')
            \<and> user_id c' = user_id c \<and> context_type c' = context_type c \<and> key c' = key c
            \<and> is_active c' = is_active c)
       \<or> (contexts d' = contexts d @ [c'] \<and> is_active c'
            \<and> active_records d (user_id c') (context_type c') (key c') = [])"
proof (cases op)
  case (Store now nid uid ct k v tier conf src sd interp sid ttl)
  with assms have st: "store d now nid uid ct k v tier conf src sd interp sid ttl = Inr (d', c')"
    by simp
  from store_result[OF st] show ?thesis
  proof (elim disjE exE conjE)
    fix e
    assume u: "update d now (ctx_id e) (Some v) (Some conf) src interp None = Inr (d', c')"
    from update_result[OF u] obtain c where g: "get_by_id d (ctx_id e) = Inr (Some c)"
      and c': "c' = c\<lparr>ctx_value := v, confidence := conf,
                ctx_interpretation := (case interp of None \<Rightarrow> ctx_interpretation c | Some i \<Rightarrow> Some i),
                source := src, updated_at := now\<rparr>"
      and d': "contexts d' = contexts (flush_context d c')" by auto
    have "ctx_id c = ctx_id e" using g by (rule get_by_id_props)
    then have "ctx_id c' = ctx_id e" "user_id c' = user_id c" "context_type c' = context_type c"
      "key c' = key c" "is_active c' = is_active c"
      by (simp_all add: c')
    with g d' show ?thesis by simp
  next
    assume "get_by_key d uid ct k = Inr None" "contexts d' = contexts d @ [c']"
      "user_id c' = uid" "context_type c' = ct" "key c' = k" "is_active c'"
    moreover from this have "active_records d uid ct k = []"
      by (cases "active_records d uid ct k" rule: scalar_one_or_none.cases)
         (simp_all add: get_by_key_def)
    ultimately show ?thesis by simp
  qed
next
  case (Update now cid val conf src interp reason)
  with assms have u: "update d now cid val conf src interp reason = Inr (d', c')" by simp
  from update_result[OF u] obtain c where g: "get_by_id d cid = Inr (Some c)"
    and c': "c' = c\<lparr>ctx_value := (case val of None \<Rightarrow> ctx_value c | Some v \<Rightarrow> v),
                confidence := (case conf of None \<Rightarrow> confidence c | Some x \<Rightarrow> x),
                ctx_interpretation := (case interp of None \<Rightarrow> ctx_interpretation c | Some i \<Rightarrow> Some i),
                source := src, updated_at := now\<rparr>"
    and d': "contexts d' = contexts (flush_context d c')" by auto
  have "ctx_id c = cid" using g by (rule get_by_id_props)
  then have "ctx_id c' = cid" "user_id c' = user_id c" "context_type c' = context_type c"
    "key c' = key c" "is_active c' = is_active c"
    by (simp_all add: c')
  with g d' show ?thesis by simp
next
  case (Confirm now cid)
  with assms have a: "service_confirm d now cid = Inr (d', c')" by simp
  from confirm_result[OF a] obtain c where g: "get_by_id d cid = Inr (Some c)"
    and c': "c' = (confirm now c)\<lparr>updated_at := now\<rparr>"
    and d': "contexts d' = contexts (flush_context d c')" by auto
  have "ctx_id c = cid" using g by (rule get_by_id_props)
  then have "ctx_id c' = cid" "user_id c' = user_id c" "context_type c' = context_type c"
    "key c' = key c" "is_active c' = is_active c"
    by (simp_all add: c' confirm_def)
  with g d' show ?thesis by simp
next
  case (RecordCorrection now cid v who)
  with assms have r: "service_record_correction d now cid v who = Inr (d', c')" by simp
  from record_correction_result[OF r] obtain c where g: "get_by_id d cid = Inr (Some c)"
    and c': "c' = (record_correction (c\<lparr>ctx_value := v\<rparr>))\<lparr>updated_at := now\<rparr>"
    and d': "contexts d' = contexts (flush_context d c')" by auto
  have "ctx_id c = cid" using g by (rule get_by_id_props)
  then have "ctx_id c' = cid" "user_id c' = user_id c" "context_type c' = context_type c"
    "key c' = key c" "is_active c' = is_active c"
    by (simp_all add: c' record_correction_def Let_def)
  with g d' show ?thesis by simp
qed

lemma call_preserves_one_active:
  assumes inv: "\<forall>u t k. length (active_records d u t k) \<le> 1"
    and ok: "call d op = Inr (d', c')"
  shows "length (active_records d' u t k) \<le> 1"
  using modify_cases[OF ok]
proof (elim disjE exE conjE)
  fix c
  assume g: "get_by_id d (ctx_id c') = Inr (Some c)"
    and d': "contexts d' = contexts (flush_context d c')"
    and same: "user_id c' = user_id c" "context_type c' = context_type c" "key c' = key c"
      "is_active c' = is_active c"
  have "length (active_records d' u t k) = length (active_records (flush_context d c') u t k)"
    by (simp only: active_records_cong[OF d'])
  also have "\<dots> = length (active_records d u t k)"
    by (rule active_records_flush[OF g refl same])
  finally show ?thesis using inv by simp
next
  assume d': "contexts d' = contexts d @ [c']" and act: "is_active c'"
    and none: "active_records d (user_id c') (context_type c') (key c') = []"
  show ?thesis
  proof (cases "user_id c' = u \<and> context_type c' = t \<and> key c' = k")
    case True
    with none have "active_records d u t k = []" by simp
    then show ?thesis using d' unfolding active_records_def by simp
  next
    case False
    then have "active_records d' u t k = active_records d u t k"
      using d' unfolding active_records_def by auto
    with inv show ?thesis by simp
  qed
qed

lemma apply_op_preserves_one_active:
  assumes inv: "\<forall>u t k. length (active_records d u t k) \<le> 1"
  shows "\<forall>u t k. length (active_records (apply_op d op) u t k) \<le> 1"
proof (cases "call d op")
  case (Inl e)
  then show ?thesis using inv by (simp add: apply_op_def)
next
  case (Inr p)
  obtain d' c' where p: "p = (d', c')" by (cases p)
  with Inr have ok: "call d op = Inr (d', c')" by simp
  have "\<And>u t k. length (active_records d' u t k) \<le> 1"
    by (rule call_preserves_one_active[OF inv ok])
  then show ?thesis using ok by (simp add: apply_op_def)
qed

lemma run_ops_preserves_one_active:
  "\<forall>u t k. length (active_records d u t k) \<le> 1
     \<Longrightarrow> \<forall>u t k. length (active_records (run_ops d ops) u t k) \<le> 1"
  unfolding run_ops_def
proof (induction ops arbitrary: d)
  case Nil
  then show ?case by simp
next
  case (Cons op ops)
  from Cons.prems have "\<forall>u t k. length (active_records (apply_op d op) u t k) \<le> 1"
    by (rule apply_op_preserves_one_active)
  from Cons.IH[OF this] show ?case by simp
qed

lemma get_by_key_NoneD:
  "get_by_key d uid ct k = Inr None \<Longrightarrow> active_records d uid ct k = []"
  by (cases "active_records d uid ct k" rule: scalar_one_or_none.cases)
     (simp_all add: get_by_key_def)

lemma get_by_key_SomeD:
  assumes "get_by_key d uid ct k = Inr (Some e)"
  shows "active_records d uid ct k = [e]"
  using assms
  by (cases "active_records d uid ct k" rule: scalar_one_or_none.cases)
     (simp_all add: get_by_key_def)

lemma get_by_key_mem:
  assumes "get_by_key d uid ct k = Inr (Some e)"
  shows "e \<in> set (contexts d)"
proof -
  have "e \<in> set (active_records d uid ct k)"
    using get_by_key_SomeD[OF assms] by simp
  then show ?thesis by (simp add: active_records_def)
qed

text \<open>
  Claim C2.  After any sequence of service calls from the empty database (Store calls in
  particular), and from any database where it holds already, every user, context type and
  key has at most one active record.  Store with an active record for the triple is the
  Update of that record; without one, and with a fresh id, it appends one new active record
  and one version row with version number 1.
\<close>

theorem store_at_most_one_active:
  "(\<forall>u t k'. length (active_records (run_ops empty_db ops) u t k') \<le> 1)
   \<and> ((\<forall>u t k'. length (active_records d u t k') \<le> 1) \<longrightarrow>
        (\<forall>u t k'. length (active_records (run_ops d ops) u t k') \<le> 1))
   \<and> (\<forall>e. get_by_key d uid ct k = Inr (Some e) \<longrightarrow>
        store d now nid uid ct k v tier conf src sd interp sid ttl =
        update d now (ctx_id e) (Some v) (Some conf) src interp None)
   \<and> (get_by_key d uid ct k = Inr None \<and> nid \<notin> set (map ctx_id (contexts d)) \<longrightarrow>
        (\<exists>c. store d now nid uid ct k v tier conf src sd interp sid ttl =
               Inr (d\<lparr>contexts := contexts d @ [c],
                      versions := versions d @
                        [\<lparr>context_id = nid, version = 1, ver_value = v,
                          ver_interpretation = interp, ver_confidence = conf,
                          changed_by = src, change_reason = Some ''Initial creation'',
                          previous_value = None\<rparr>]\<rparr>, c)
             \<and> ctx_id c = nid \<and> user_id c = uid \<and> context_type c = ct \<and> key c = k
             \<and> is_active c))"
proof (intro conjI)
  have e: "\<forall>u t k'. length (active_records empty_db u t k') \<le> 1"
    by (simp add: active_records_def empty_db_def)
  show "\<forall>u t k'. length (active_records (run_ops empty_db ops) u t k') \<le> 1"
    using e by (rule run_ops_preserves_one_active)
  show "(\<forall>u t k'. length (active_records d u t k') \<le> 1) \<longrightarrow>
        (\<forall>u t k'. length (active_records (run_ops d ops) u t k') \<le> 1)"
    using run_ops_preserves_one_active[of d ops] by blast
  show "\<forall>e. get_by_key d uid ct k = Inr (Some e) \<longrightarrow>
        store d now nid uid ct k v tier conf src sd interp sid ttl =
        update d now (ctx_id e) (Some v) (Some conf) src interp None"
    by (simp add: store_def)
  show "get_by_key d uid ct k = Inr None \<and> nid \<notin> set (map ctx_id (contexts d)) \<longrightarrow>
        (\<exists>c. store d now nid uid ct k v tier conf src sd interp sid ttl =
               Inr (d\<lparr>contexts := contexts d @ [c],
                      versions := versions d @
                        [\<lparr>context_id = nid, version = 1, ver_value = v,
                          ver_interpretation = interp, ver_confidence = conf,
                          changed_by = src, change_reason = Some ''Initial creation'',
                          previous_value = None\<rparr>]\<rparr>, c)
             \<and> ctx_id c = nid \<and> user_id c = uid \<and> context_type c = ct \<and> key c = k
             \<and> is_active c)"
    by (simp add: store_def Let_def create_version_def)
qed

text \<open>
  Claim C10.  When Store finds an active record for the user, type and key, the record it
  returns is the existing record with only value, confidence, interpretation (when given),
  source and updated-at changed: its tier, expiry, source details and session id are those
  of the existing record.  Every other row is untouched, and the arguments tier, TTL,
  source details and session id do not influence the result.
\<close>

theorem store_existing_frame:
  assumes ex: "get_by_key d uid ct k = Inr (Some e)"
    and st: "store d now nid uid ct k v tier conf src sd interp sid ttl = Inr (d', c')"
  shows "c' = e\<lparr>ctx_value := v, confidence := conf,
               ctx_interpretation := (case interp of None \<Rightarrow> ctx_interpretation e | Some i \<Rightarrow> Some i),
               source := src, updated_at := now\<rparr>
       \<and> memory_tier c' = memory_tier e \<and> expires_at c' = expires_at e
       \<and> source_details c' = source_details e \<and> session_id c' = session_id e
       \<and> contexts d' = map (\<lambda>r. if ctx_id r = ctx_id e then c' else r) (contexts d)
       \<and> store d now nid uid ct k v tier' conf src sd' interp sid' ttl' = Inr (d', c')"
proof -
  have u: "update d now (ctx_id e) (Some v) (Some conf) src interp None = Inr (d', c')"
    using ex st by (simp add: store_def)
  from update_result[OF u] obtain c where g: "get_by_id d (ctx_id e) = Inr (Some c)"
    and c': "c' = c\<lparr>ctx_value := v, confidence := conf,
               ctx_interpretation := (case interp of None \<Rightarrow> ctx_interpretation c | Some i \<Rightarrow> Some i),
               source := src, updated_at := now\<rparr>"
    and d': "contexts d' = contexts (flush_context d c')" by auto
  have "e \<in> set (contexts d)" using ex by (rule get_by_key_mem)
  then have "e = c" by (rule get_by_id_props(3)[OF g _ refl])
  then have ce: "c = e" by (rule sym)
  have idc: "ctx_id c' = ctx_id e" by (simp add: c' ce)
  have 1: "c' = e\<lparr>ctx_value := v, confidence := conf,
               ctx_interpretation := (case interp of None \<Rightarrow> ctx_interpretation e | Some i \<Rightarrow> Some i),
               source := src, updated_at := now\<rparr>"
    using c' unfolding ce .
  have 2: "memory_tier c' = memory_tier e" "expires_at c' = expires_at e"
    "source_details c' = source_details e" "session_id c' = session_id e"
    by (simp_all add: 1)
  have 3: "contexts d' = map (\<lambda>r. if ctx_id r = ctx_id e then c' else r) (contexts d)"
    by (simp add: d' flush_context_def idc)
  have 4: "store d now nid uid ct k v tier' conf src sd' interp sid' ttl' = Inr (d', c')"
    using ex u by (simp add: store_def)
  show ?thesis using 1 2 3 4 by (intro conjI)
qed


lemma example_db_get_by_key:
  "get_by_key example_db 7 SPATIAL ''location'' = Inr (Some example_context)"
  by (simp add: get_by_key_def active_records_def example_db_def example_context_def)

lemma update_ok:
  assumes "get_by_id d cid = Inr (Some c)"
  shows "\<exists>d' c'. update d now cid val conf src interp reason = Inr (d', c')"
  using assms by (simp add: update_def Let_def)

text \<open>C2 at two Store calls for the same user, type and key.\<close>

theorem store_at_most_one_active_witness:
  "length (active_records (run_ops empty_db two_stores) 7 SPATIAL ''location'') \<le> 1
   \<and> length (contexts (run_ops empty_db two_stores)) = 1
   \<and> map version (versions (run_ops empty_db two_stores)) = [1, 2]
   \<and> length (active_records example_db 7 SPATIAL ''location'') \<le> 1
   \<and> length (active_records (run_ops example_db two_stores) 7 SPATIAL ''location'') \<le> 1
   \<and> get_by_key example_db 7 SPATIAL ''location'' = Inr (Some example_context)
   \<and> store example_db 5 2 7 SPATIAL ''location'' new_york EPHEMERAL (round_double (9/10))
        ''user_explicit'' None None (Some ''s1'') (Some 60)
      = update example_db 5 (ctx_id example_context) (Some new_york)
          (Some (round_double (9/10))) ''user_explicit'' None None
   \<and> get_by_key empty_db 7 SPATIAL ''location'' = Inr None
   \<and> 1 \<notin> set (map ctx_id (contexts empty_db))
   \<and> (\<exists>c. store empty_db 0 1 7 SPATIAL ''location'' san_francisco SHORT_TERM
              (round_double (7/10)) ''inference'' None None None None
            = Inr (empty_db\<lparr>contexts := contexts empty_db @ [c],
                     versions := versions empty_db @
                        [\<lparr>context_id = 1, version = 1, ver_value = san_francisco,
                          ver_interpretation = None, ver_confidence = round_double (7/10),
                          changed_by = ''inference'', change_reason = Some ''Initial creation'',
                          previous_value = None\<rparr>]\<rparr>, c)
          \<and> is_active c)"
proof -
  have inv: "\<forall>u t k'. length (active_records example_db u t k') \<le> 1"
    by (simp add: active_records_def example_db_def)
  have none: "get_by_key empty_db 7 SPATIAL ''location'' = Inr None"
    by (simp add: get_by_key_def active_records_def empty_db_def)
  have fresh: "1 \<notin> set (map ctx_id (contexts empty_db))"
    by (simp add: empty_db_def)
  have run: "length (contexts (run_ops empty_db two_stores)) = 1"
    "map version (versions (run_ops empty_db two_stores)) = [1, 2]"
    by (simp_all add: run_ops_def two_stores_def apply_op_def store_def update_def
          get_by_key_def get_by_id_def active_records_def empty_db_def create_version_def
          flush_context_def get_latest_version_number_def Let_def)
  note a = store_at_most_one_active[of two_stores example_db 7 SPATIAL "''location''"
      5 2 new_york EPHEMERAL "round_double (9/10)" "''user_explicit''" None None "Some ''s1''"
      "Some 60"]
  note b = store_at_most_one_active[of two_stores empty_db 7 SPATIAL "''location''"
      0 1 san_francisco SHORT_TERM "round_double (7/10)" "''inference''" None None None None]
  show ?thesis
    using a b inv none fresh run example_db_get_by_key by blast
qed

text \<open>C10: storing with tier ephemeral over the short-term example record gives it no expiry.\<close>

theorem store_existing_frame_witness:
  "get_by_key example_db 7 SPATIAL ''location'' = Inr (Some example_context)
   \<and> (\<exists>d' c'. store example_db 5 2 7 SPATIAL ''location'' new_york EPHEMERAL
                  (round_double (1/2)) ''user_explicit'' (Some JNull) None (Some ''s1'') (Some 60)
                = Inr (d', c')
        \<and> memory_tier c' = SHORT_TERM \<and> expires_at c' = None
        \<and> source_details c' = None \<and> session_id c' = None
        \<and> ctx_value c' = new_york \<and> source c' = ''user_explicit'' \<and> updated_at c' = 5)"
proof -
  have g: "get_by_id example_db (ctx_id example_context) = Inr (Some example_context)"
    using example_db_get by (simp add: example_context_def)
  obtain d' c' where u: "update example_db 5 (ctx_id example_context) (Some new_york)
      (Some (round_double (1/2))) ''user_explicit'' None None = Inr (d', c')"
    using update_ok[OF g] by blast
  have st: "store example_db 5 2 7 SPATIAL ''location'' new_york EPHEMERAL
                  (round_double (1/2)) ''user_explicit'' (Some JNull) None (Some ''s1'') (Some 60)
                = Inr (d', c')"
    using u by (simp only: store_def example_db_get_by_key sum.case option.case)
  note f = store_existing_frame[OF example_db_get_by_key st]
  have "memory_tier c' = SHORT_TERM" "expires_at c' = None" "source_details c' = None"
    "session_id c' = None" "ctx_value c' = new_york" "source c' = ''user_explicit''"
    "updated_at c' = 5"
    using f by (simp_all add: example_context_def)
  then show ?thesis using st example_db_get_by_key by blast
qed

section \<open>Reference resolution\<close>

lemma text_just_now: "strip (lower ''just now'') = ''just now''"
  by code_simp

lemma text_recently: "strip (lower ''recently'') = ''recently''"
  by code_simp

lemma text_a_moment_ago: "strip (lower ''a moment ago'') = ''a moment ago''"
  by code_simp

lemma no_day_just_now:
  "find (\<lambda>(pattern, day_offset). re_search pattern ''just now'') RELATIVE_DAY_PATTERNS = None"
  by code_simp

lemma no_day_recently:
  "find (\<lambda>(pattern, day_offset). re_search pattern ''recently'') RELATIVE_DAY_PATTERNS = None"
  by code_simp

lemma no_day_a_moment_ago:
  "find (\<lambda>(pattern, day_offset). re_search pattern ''a moment ago'') RELATIVE_DAY_PATTERNS = None"
  by code_simp

text \<open>
  The table of relative-time patterns is searched in its order, and \<^verbatim>\<open>\bnow\b\<close> is its
  first entry: it matches at the second word of \<^verbatim>\<open>just now\<close>, before \<^verbatim>\<open>\bjust now\b\<close>
  is tried.
\<close>

lemma first_time_pattern_just_now:
  "find (\<lambda>(pattern, time_type). re_search pattern ''just now'') RELATIVE_TIME_PATTERNS
   = Some (''now'', ''current'')"
  by code_simp

lemma first_time_pattern_recently:
  "find (\<lambda>(pattern, time_type). re_search pattern ''recently'') RELATIVE_TIME_PATTERNS
   = Some (''recently'', ''recent'')"
  by code_simp

lemma first_time_pattern_a_moment_ago:
  "find (\<lambda>(pattern, time_type). re_search pattern ''a moment ago'') RELATIVE_TIME_PATTERNS
   = Some (''a moment ago'', ''recent'')"
  by code_simp

lemma current_is_not_recent: "(''current'' = ''recent'') = False"
  by simp

text \<open>
  Claim C7 at the reference \<^verbatim>\<open>just now\<close>.  Against every anchor, \<^verbatim>\<open>just now\<close> is
  resolved by the pattern \<^verbatim>\<open>now\<close>: the result is the anchor's instant itself, with no
  end of a window, method \<^verbatim>\<open>current_moment\<close>, confidence \<^verbatim>\<open>0.99\<close> and not ambiguous.
  It is not the window of 15 minutes with confidence \<^verbatim>\<open>0.75\<close> that the claim describes.
\<close>

theorem just_now_resolved_as_current_moment:
  "resolve_reference zoneinfo strptime
     \<lparr>reference_text = ''just now'', reference_type = rt, context_hint = hint\<rparr> anchor
   = Inr \<lparr>original_reference = ''just now'', resolved_type = RELATIVE_TIME,
          resolved_start = timestamp anchor, resolved_end = None,
          resolution_method = ''current_moment'',
          ref_confidence = round_double (99/100), is_ambiguous = False,
          alternative_resolutions = [],
          human_readable = strftime_IMp (timestamp anchor)\<rparr>"
  by (simp only: resolve_reference_def TimeReference.simps text_just_now Let_def
        no_day_just_now first_time_pattern_just_now option.case prod.case
        resolve_relative_time_def if_True refl)

text \<open>
  The other two references of the claim do resolve to the window: \<^verbatim>\<open>recently\<close> and
  \<^verbatim>\<open>a moment ago\<close> give the 15 minutes before the anchor, confidence \<^verbatim>\<open>0.75\<close>, marked
  ambiguous.
\<close>

lemma recent_window:
  "resolve_relative_time zoneinfo text ''recent'' anchor
   = Inr \<lparr>original_reference = text, resolved_type = RELATIVE_TIME,
          resolved_start = add_timedelta (timestamp anchor) (- minutes 15),
          resolved_end = Some (timestamp anchor),
          resolution_method = ''recent_window'',
          ref_confidence = round_double (75/100), is_ambiguous = True,
          alternative_resolutions =
            [JDict [(''window'', JStr ''5_minutes''), (''confidence'', JFloat (round_double (5/10)))],
             JDict [(''window'', JStr ''30_minutes''), (''confidence'', JFloat (round_double (6/10)))]],
          human_readable = ''within the last few minutes''\<rparr>"
  unfolding resolve_relative_time_def by simp

lemma recently_resolved_as_window:
  "resolve_reference zoneinfo strptime
     \<lparr>reference_text = ''recently'', reference_type = rt, context_hint = hint\<rparr> anchor
   = resolve_relative_time zoneinfo ''recently'' ''recent'' anchor"
  by (simp only: resolve_reference_def TimeReference.simps text_recently Let_def
        no_day_recently first_time_pattern_recently option.case prod.case)

lemma a_moment_ago_resolved_as_window:
  "resolve_reference zoneinfo strptime
     \<lparr>reference_text = ''a moment ago'', reference_type = rt, context_hint = hint\<rparr> anchor
   = resolve_relative_time zoneinfo ''a moment ago'' ''recent'' anchor"
  by (simp only: resolve_reference_def TimeReference.simps text_a_moment_ago Let_def
        no_day_a_moment_ago first_time_pattern_a_moment_ago option.case prod.case)

section \<open>Midnight crossover\<close>










section \<open>Unknown time zones\<close>

lemma utc_offset_string: "strftime_z (datetime_now now_utc timezone_utc) = ''+0000''"
proof -
  have p: "pad2 0 = ''00''" by code_simp
  have "utcoffset (datetime_now now_utc timezone_utc) = Some 0"
    by (simp add: utcoffset_def datetime_now_def timezone_utc_def fixed_zone_def
          utcoffset_wall_def utcoffset_utc_def)
  then show ?thesis
    by (simp add: strftime_z_def p)
qed

lemma example_unknown_zone: "example_zoneinfo ''Mars/Olympus_Mons'' = None"
  by code_simp

text \<open>
  Claim C6 fails at the engine: for the unknown zone \<^verbatim>\<open>Mars/Olympus_Mons\<close> the
  interpretation of a timestamp raises the error of the zone lookup.
\<close>

theorem unknown_timezone_raises:
  "temporal_interpret example_zoneinfo ''UTC'' (mk_datetime 2026 1 4 0 30 utc_zone)
     (Some ''Mars/Olympus_Mons'') None
   = Inl (ZoneInfoNotFoundError ''Mars/Olympus_Mons'')"
  by (simp add: temporal_interpret_def ZoneInfo_def example_unknown_zone)

text \<open>
  Claim C6, amended.  For a zone name that is not empty and not in the time zone database,
  the interpretation of a timestamp raises the error of the zone lookup (UTC, the default
  zone, is used only when no zone name is given).  The fast path of the event bus does not
  fail: it falls back to the current time in UTC, names the zone \<^verbatim>\<open>UTC\<close> with offset
  \<^verbatim>\<open>+00:00\<close>, and logs nothing about the zone; its only warning is the one for a slow
  call.
\<close>

theorem unknown_timezone_amended:
  assumes unknown: "zoneinfo tzname = None"
    and given: "tzname \<noteq> []"
  shows "temporal_interpret zoneinfo default_timezone ts (Some tzname) started
         = Inl (ZoneInfoNotFoundError tzname)
       \<and> fst (resolve_atomic_context zoneinfo now_utc elapsed_ms tzname loc lang cur)
         = new_AtomicContext \<lparr>wall = now_utc, tz = Some timezone_utc\<rparr> ''UTC'' ''+00:00''
             loc lang cur
             (if prefix ''en-GB'' loc \<or> prefix ''en-AU'' loc then ''DD/MM/YYYY''
              else if prefix ''zh'' loc \<or> prefix ''ja'' loc \<or> prefix ''ko'' loc
              then ''YYYY/MM/DD'' else ''MM/DD/YYYY'')
       \<and> snd (resolve_atomic_context zoneinfo now_utc elapsed_ms tzname loc lang cur)
         = (if elapsed_ms > 10 then [''Fast path exceeded target time''] else [])"
proof -
  have n: "datetime_now now_utc timezone_utc = \<lparr>wall = now_utc, tz = Some timezone_utc\<rparr>"
    by (simp add: datetime_now_def timezone_utc_def fixed_zone_def utcoffset_utc_def)
  have z: "strftime_z \<lparr>wall = now_utc, tz = Some timezone_utc\<rparr> = ''+0000''"
    using utc_offset_string[of now_utc] by (simp only: n)
  have 1: "temporal_interpret zoneinfo default_timezone ts (Some tzname) started
           = Inl (ZoneInfoNotFoundError tzname)"
    using unknown given by (simp add: temporal_interpret_def ZoneInfo_def)
  have 2: "fst (resolve_atomic_context zoneinfo now_utc elapsed_ms tzname loc lang cur)
         = new_AtomicContext \<lparr>wall = now_utc, tz = Some timezone_utc\<rparr> ''UTC'' ''+00:00''
             loc lang cur
             (if prefix ''en-GB'' loc \<or> prefix ''en-AU'' loc then ''DD/MM/YYYY''
              else if prefix ''zh'' loc \<or> prefix ''ja'' loc \<or> prefix ''ko'' loc
              then ''YYYY/MM/DD'' else ''MM/DD/YYYY'')"
    using unknown
    by (simp add: resolve_atomic_context_def ZoneInfo_def n z Let_def new_AtomicContext_def)
  have 3: "snd (resolve_atomic_context zoneinfo now_utc elapsed_ms tzname loc lang cur)
         = (if elapsed_ms > 10 then [''Fast path exceeded target time''] else [])"
    using unknown
    by (simp add: resolve_atomic_context_def ZoneInfo_def Let_def FAST_PATH_TARGET_MS_def
          split: prod.splits)
  show ?thesis using 1 2 3 by (intro conjI)
qed

text \<open>C6, amended, at the zone \<^verbatim>\<open>Mars/Olympus_Mons\<close> and a call that takes 2 ms.\<close>

theorem unknown_timezone_amended_witness:
  "example_zoneinfo ''Mars/Olympus_Mons'' = None
   \<and> ''Mars/Olympus_Mons'' \<noteq> []
   \<and> temporal_interpret example_zoneinfo ''UTC'' (mk_datetime 2026 1 4 0 30 utc_zone)
        (Some ''Mars/Olympus_Mons'') None
      = Inl (ZoneInfoNotFoundError ''Mars/Olympus_Mons'')
   \<and> ac_timezone (fst (resolve_atomic_context example_zoneinfo 1767486600000000 2
        ''Mars/Olympus_Mons'' ''en-US'' ''en'' ''USD'')) = ''UTC''
   \<and> timezone_offset (fst (resolve_atomic_context example_zoneinfo 1767486600000000 2
        ''Mars/Olympus_Mons'' ''en-US'' ''en'' ''USD'')) = ''+00:00''
   \<and> ac_timestamp (fst (resolve_atomic_context example_zoneinfo 1767486600000000 2
        ''Mars/Olympus_Mons'' ''en-US'' ''en'' ''USD''))
      = \<lparr>wall = 1767486600000000, tz = Some timezone_utc\<rparr>
   \<and> snd (resolve_atomic_context example_zoneinfo 1767486600000000 2
        ''Mars/Olympus_Mons'' ''en-US'' ''en'' ''USD'') = []"
proof -
  have g: "''Mars/Olympus_Mons'' \<noteq> []" by simp
  note a = unknown_timezone_amended[where zoneinfo = example_zoneinfo
      and tzname = "''Mars/Olympus_Mons''" and default_timezone = "''UTC''"
      and ts = "mk_datetime 2026 1 4 0 30 utc_zone" and started = None
      and now_utc = 1767486600000000 and elapsed_ms = 2
      and loc = "''en-US''" and lang = "''en''" and cur = "''USD''",
      OF example_unknown_zone g]
  have 1: "temporal_interpret example_zoneinfo ''UTC'' (mk_datetime 2026 1 4 0 30 utc_zone)
        (Some ''Mars/Olympus_Mons'') None
      = Inl (ZoneInfoNotFoundError ''Mars/Olympus_Mons'')"
    using a by (rule conjunct1)
  have 2: "fst (resolve_atomic_context example_zoneinfo 1767486600000000 2
        ''Mars/Olympus_Mons'' ''en-US'' ''en'' ''USD'')
      = new_AtomicContext \<lparr>wall = 1767486600000000, tz = Some timezone_utc\<rparr> ''UTC''
          ''+00:00'' ''en-US'' ''en'' ''USD''
          (if prefix ''en-GB'' ''en-US'' \<or> prefix ''en-AU'' ''en-US'' then ''DD/MM/YYYY''
           else if prefix ''zh'' ''en-US'' \<or> prefix ''ja'' ''en-US'' \<or> prefix ''ko'' ''en-US''
           then ''YYYY/MM/DD'' else ''MM/DD/YYYY'')"
    using a by (rule conjunct1[OF conjunct2])
  have 3: "snd (resolve_atomic_context example_zoneinfo 1767486600000000 2
        ''Mars/Olympus_Mons'' ''en-US'' ''en'' ''USD'') = []"
    using conjunct2[OF conjunct2[OF a]] by simp
  have 4: "ac_timezone (fst (resolve_atomic_context example_zoneinfo 1767486600000000 2
        ''Mars/Olympus_Mons'' ''en-US'' ''en'' ''USD'')) = ''UTC''"
    by (subst 2) (simp add: new_AtomicContext_def Let_def)
  have 5: "timezone_offset (fst (resolve_atomic_context example_zoneinfo 1767486600000000 2
        ''Mars/Olympus_Mons'' ''en-US'' ''en'' ''USD'')) = ''+00:00''"
    by (subst 2) (simp add: new_AtomicContext_def Let_def)
  have 6: "ac_timestamp (fst (resolve_atomic_context example_zoneinfo 1767486600000000 2
        ''Mars/Olympus_Mons'' ''en-US'' ''en'' ''USD''))
      = \<lparr>wall = 1767486600000000, tz = Some timezone_utc\<rparr>"
    by (subst 2) (simp add: new_AtomicContext_def Let_def)
  show ?thesis using example_unknown_zone g 1 4 5 6 3 by (intro conjI)
qed

section \<open>Responses on the bus\<close>

lemma dict_get_set: "dict_get (dict_set k v d) k' = (if k' = k then Some v else dict_get d k')"
  by (induction d) (auto simp add: dict_get_def)

lemma dict_get_pop: "dict_get (dict_pop k d) k' = (if k' = k then None else dict_get d k')"
proof (induction d)
  case Nil
  then show ?case by (simp add: dict_get_def dict_pop_def)
next
  case (Cons p d)
  then show ?case by (cases p) (auto simp add: dict_get_def dict_pop_def)
qed

lemma handle_response_results:
  assumes "handle_response s response_data now = Inr s'"
    and "dict_get (results s) rid \<noteq> None"
  shows "dict_get (results s') rid \<noteq> None"
  using assms
  by (auto simp add: handle_response_def Let_def dict_get_set
        split: option.splits if_splits)

lemma handle_response_tasks:
  "handle_response s response_data now = Inr s' \<Longrightarrow> tasks s' = tasks s"
  by (auto simp add: handle_response_def Let_def split: option.splits if_splits)

lemma handle_response_stores:
  assumes "dict_get response_data ''request_id'' = Some rid" and "truthy rid"
    and "hashable rid"
  shows "\<exists>s'. handle_response s response_data now = Inr s'
           \<and> dict_get (results s') rid \<noteq> None \<and> tasks s' = tasks s"
  using assms
  by (auto simp add: handle_response_def Let_def dict_get_set split: option.splits)

lemma no_waiter_update:
  assumes "\<not> list_ex (waits_for rid) ts" and "\<not> waits_for rid t"
  shows "\<not> list_ex (waits_for rid) (ts[n := t])"
  using assms
  by (auto simp add: list_ex_iff dest!: set_update_subset_insert[THEN subsetD])

lemma no_waiter_append:
  assumes "\<not> list_ex (waits_for rid) ts" and "\<not> waits_for rid t"
  shows "\<not> list_ex (waits_for rid) (ts @ [t])"
  using assms by (simp add: list_ex_iff)

lemma bus_step_buffered:
  assumes b: "buffered s rid" and other: "\<not> requests rid ev"
  shows "buffered (bus_step s ev) rid"
proof -
  from b have r: "dict_get (results s) rid \<noteq> None"
    and w: "\<not> list_ex (waits_for rid) (tasks s)"
    by (simp_all add: buffered_def nobody_waits_def)
  show ?thesis
  proof (cases ev)
    case (Request r')
    with other have "JStr r' \<noteq> rid" by simp
    then have "\<not> waits_for rid
        \<lparr>task_request_id = r', task_event = length (events s), task_state = Waiting\<rparr>"
      by (simp add: waits_for_def)
    from no_waiter_append[OF w this] r Request show ?thesis
      by (simp add: buffered_def nobody_waits_def request_high_entropy_context_def Let_def)
  next
    case (Response response_data now)
    show ?thesis
    proof (cases "handle_response s response_data now")
      case (Inl e)
      with b Response show ?thesis by simp
    next
      case (Inr s')
      from handle_response_results[OF Inr r] handle_response_tasks[OF Inr] w
      have "buffered s' rid" by (simp add: buffered_def nobody_waits_def)
      with Inr Response show ?thesis by simp
    qed
  next
    case (Resume n now elapsed_ms)
    show ?thesis
    proof (cases "n < length (tasks s) \<and> task_state (tasks s ! n) = Waiting
                   \<and> events s ! task_event (tasks s ! n)")
      case False
      then have "resume s n now elapsed_ms = s"
        unfolding resume_def by (rule if_not_P)
      with b Resume show ?thesis by simp
    next
      case True
      define rid' where "rid' = JStr (task_request_id (tasks s ! n))"
      define returned where "returned =
        (case dict_get (results s) rid' of
           Some result \<Rightarrow> result\<lparr>resolution_time_ms := elapsed_ms\<rparr>
         | None \<Rightarrow>
             \<lparr>request_id = rid', vector_memories = JList [], web_grounding = JList [],
              cross_session_insights = JList [], semantic_relations = JList [],
              resolved_at = Some now, resolution_time_ms = elapsed_ms\<rparr>)"
      have eq: "resume s n now elapsed_ms =
          s\<lparr>results := dict_pop rid' (results s),
            pending_requests := dict_pop rid' (pending_requests s),
            tasks := (tasks s)[n := (tasks s ! n)\<lparr>task_state := Returned returned\<rparr>]\<rparr>"
        unfolding resume_def rid'_def returned_def Let_def using True by (rule if_P)
      from True have "tasks s ! n \<in> set (tasks s)" by simp
      with w True have ne: "rid' \<noteq> rid"
        by (auto simp add: list_ex_iff waits_for_def rid'_def)
      have r': "dict_get (dict_pop rid' (results s)) rid \<noteq> None"
        using r ne by (simp add: dict_get_pop)
      have "\<not> waits_for rid ((tasks s ! n)\<lparr>task_state := Returned returned\<rparr>)"
        by (simp add: waits_for_def)
      from no_waiter_update[OF w this] r' Resume show ?thesis
        by (simp add: eq buffered_def nobody_waits_def)
    qed
  next
    case (Timeout n)
    show ?thesis
    proof (cases "n < length (tasks s) \<and> task_state (tasks s ! n) = Waiting")
      case False
      then have "timeout s n = s"
        unfolding timeout_def by (rule if_not_P)
      with b Timeout show ?thesis by simp
    next
      case True
      have eq: "timeout s n =
          s\<lparr>pending_requests :=
              dict_pop (JStr (task_request_id (tasks s ! n))) (pending_requests s),
            tasks := (tasks s)[n := (tasks s ! n)\<lparr>task_state := Cancelled\<rparr>]\<rparr>"
        unfolding timeout_def Let_def using True by (rule if_P)
      have "\<not> waits_for rid ((tasks s ! n)\<lparr>task_state := Cancelled\<rparr>)"
        by (simp add: waits_for_def)
      from no_waiter_update[OF w this] r Timeout show ?thesis
        by (simp add: eq buffered_def nobody_waits_def)
    qed
  qed
qed

lemma run_bus_buffered:
  "buffered s rid \<Longrightarrow> \<not> list_ex (requests rid) evs \<Longrightarrow> buffered (run_bus s evs) rid"
  unfolding run_bus_def
  by (induction evs arbitrary: s) (simp_all add: bus_step_buffered)

text \<open>
  The parts of claim C8 that hold.  A timeout removes the pending request of the task, and
  a task that has returned or was cancelled stays as it is: its caller gets one context at
  most.
\<close>

lemma timeout_removes_pending_request:
  assumes "n < length (tasks s)" and "task_state (tasks s ! n) = Waiting"
  shows "dict_get (pending_requests (bus_step s (Timeout n)))
           (JStr (task_request_id (tasks s ! n))) = None"
  using assms by (simp add: timeout_def Let_def dict_get_pop)

lemma bus_step_length: "length (tasks s) \<le> length (tasks (bus_step s ev))"
proof (cases ev)
  case (Response response_data now)
  then show ?thesis
    by (cases "handle_response s response_data now") (simp_all add: handle_response_tasks)
qed (simp_all add: request_high_entropy_context_def resume_def timeout_def Let_def)

lemma bus_step_finished:
  assumes "n < length (tasks s)" and "task_state (tasks s ! n) \<noteq> Waiting"
  shows "tasks (bus_step s ev) ! n = tasks s ! n"
proof (cases ev)
  case (Request r)
  with assms show ?thesis
    by (simp add: request_high_entropy_context_def Let_def nth_append)
next
  case (Response response_data now)
  then show ?thesis
    by (cases "handle_response s response_data now") (simp_all add: handle_response_tasks)
next
  case (Resume m now elapsed_ms)
  with assms show ?thesis
    by (cases "m = n") (auto simp add: resume_def Let_def)
next
  case (Timeout m)
  with assms show ?thesis
    by (cases "m = n") (auto simp add: timeout_def Let_def)
qed

lemma delivered_at_most_once:
  "n < length (tasks s) \<Longrightarrow> task_state (tasks s ! n) \<noteq> Waiting
     \<Longrightarrow> tasks (run_bus s evs) ! n = tasks s ! n"
  unfolding run_bus_def
proof (induction evs arbitrary: s)
  case Nil
  then show ?case by simp
next
  case (Cons ev evs)
  have l: "n < length (tasks (bus_step s ev))"
    using Cons.prems(1) bus_step_length[of s ev] by simp
  have e: "tasks (bus_step s ev) ! n = tasks s ! n"
    using Cons.prems by (rule bus_step_finished)
  with Cons.prems have "task_state (tasks (bus_step s ev) ! n) \<noteq> Waiting" by simp
  from Cons.IH[OF l this] e show ?case by simp
qed

text \<open>
  Claim C8 at a late response.  When a response with request id \<open>rid\<close> arrives while no
  task waits for \<open>rid\<close> (its caller's deadline has elapsed, or there never was one), the
  response is stored in \<^verbatim>\<open>_results\<close>, and it is still there after every further run of
  the bus in which no new request with this id is made: it is not dropped.
\<close>

theorem late_response_stays_buffered:
  assumes "dict_get response_data ''request_id'' = Some rid"
    and "truthy rid" and "hashable rid"
    and "nobody_waits s rid"
    and "\<not> list_ex (requests rid) evs"
  shows "dict_get (results (run_bus (bus_step s (Response response_data now)) evs)) rid
         \<noteq> None"
proof -
  from handle_response_stores[OF assms(1-3)] obtain s' where
    h: "handle_response s response_data now = Inr s'"
    and r: "dict_get (results s') rid \<noteq> None" and t: "tasks s' = tasks s"
    by blast
  from r t assms(4) have "buffered s' rid" by (simp add: buffered_def nobody_waits_def)
  from run_bus_buffered[OF this assms(5)] h show ?thesis by (simp add: buffered_def)
qed

lemma after_deadline:
  "run_bus empty_bus [Request ''r1'', Timeout 0]
   = \<lparr>pending_requests = [], results = [], events = [False],
      tasks = [\<lparr>task_request_id = ''r1'', task_event = 0, task_state = Cancelled\<rparr>]\<rparr>"
  by code_simp

lemma late_response_id: "dict_get late_response ''request_id'' = Some (JStr ''r1'')"
  by code_simp

text \<open>
  C8 at the request \<^verbatim>\<open>r1\<close>: the caller's deadline elapses, the response arrives, and a
  second request is made, answered and returned.  The pending request of \<^verbatim>\<open>r1\<close> is gone
  and the late response is in the buffer.
\<close>

theorem late_response_stays_buffered_witness:
  "dict_get late_response ''request_id'' = Some (JStr ''r1'')
   \<and> truthy (JStr ''r1'') \<and> hashable (JStr ''r1'')
   \<and> nobody_waits (run_bus empty_bus [Request ''r1'', Timeout 0]) (JStr ''r1'')
   \<and> \<not> list_ex (requests (JStr ''r1''))
         [Request ''r2'', Response [(''request_id'', JStr ''r2'')] 30, Resume 1 40 2]
   \<and> dict_get (pending_requests (run_bus empty_bus [Request ''r1'', Timeout 0])) (JStr ''r1'')
       = None
   \<and> dict_get (results (run_bus
         (bus_step (run_bus empty_bus [Request ''r1'', Timeout 0]) (Response late_response 20))
         [Request ''r2'', Response [(''request_id'', JStr ''r2'')] 30, Resume 1 40 2]))
       (JStr ''r1'') \<noteq> None
   \<and> map fst (results (run_bus
         (bus_step (run_bus empty_bus [Request ''r1'', Timeout 0]) (Response late_response 20))
         [Request ''r2'', Response [(''request_id'', JStr ''r2'')] 30, Resume 1 40 2]))
       = [JStr ''r1'']"
proof -
  have 1: "truthy (JStr ''r1'')" "hashable (JStr ''r1'')" by simp_all
  have 2: "nobody_waits (run_bus empty_bus [Request ''r1'', Timeout 0]) (JStr ''r1'')"
    by (simp only: after_deadline) (simp add: nobody_waits_def waits_for_def)
  have 3: "\<not> list_ex (requests (JStr ''r1''))
         [Request ''r2'', Response [(''request_id'', JStr ''r2'')] 30, Resume 1 40 2]"
    by simp
  have 4: "dict_get (pending_requests (run_bus empty_bus [Request ''r1'', Timeout 0]))
       (JStr ''r1'') = None"
    by (simp only: after_deadline) (simp add: dict_get_def)
  have 5: "map fst (results (run_bus
         (bus_step (run_bus empty_bus [Request ''r1'', Timeout 0]) (Response late_response 20))
         [Request ''r2'', Response [(''request_id'', JStr ''r2'')] 30, Resume 1 40 2]))
       = [JStr ''r1'']"
    by code_simp
  note th = late_response_stays_buffered[OF late_response_id 1 2 3, of 20]
  show ?thesis using late_response_id 1 2 3 4 th 5 by (intro conjI)
qed

section \<open>Credentials in the composed prompt\<close>

lemma example_signals:
  "analyze_message example_message
   = \<lparr>temporal_signal = 0, spatial_signal = 0, situational_signal = 1\<rparr>"
  by code_simp

lemma example_relevance:
  "score_to_relevance (fmul 1 (round_double (5/10))) = MEDIUM"
  by code_simp

text \<open>
  Claim C1 at a situational map whose implicit assumptions hold an API key.  The composer
  with the default budget and threshold includes the element \<^verbatim>\<open>assumptions\<close>, and the
  system context has the line \<^verbatim>\<open>- assumptions: api_key=sk-\<dots>\<close>: the key is in it.
\<close>

theorem api_key_in_system_context:
  "compose lib MAX_CONTEXT_TOKENS MIN_RELEVANCE_SCORE example_message None None
     (Some example_situational_context) SYSTEM_PROMPT
   = Inr \<lparr>system_context =
            join newline
              [''## Current Context'',
               newline @ ''### Context'',
               ''- assumptions: api_key='' @ example_api_key,
               newline @ ''---'',
               ''Use this context to ground your responses in the user's reality.'',
               ''Do not mention this context unless directly relevant to the user's query.''],
          user_message = example_message,
          included_context =
            [\<lparr>el_key = ''assumptions'', el_value = JDict [(''api_key'', JStr example_api_key)],
              el_context_type = ''situational'', relevance = MEDIUM,
              el_confidence = JFloat (round_double (5/10)), token_estimate = 40,
              el_source = ''inferred'', el_interpretation = None\<rparr>],
          excluded_context = [],
          total_tokens = 40\<rparr>
   \<and> contains
        (join newline
              [''## Current Context'',
               newline @ ''### Context'',
               ''- assumptions: api_key='' @ example_api_key,
               newline @ ''---'',
               ''Use this context to ground your responses in the user's reality.'',
               ''Do not mention this context unless directly relevant to the user's query.''])
        example_api_key"
  by code_simp

text \<open>
  What keeps credentials out in the repository's tests: an entry of the situational map
  under any other key than \<^verbatim>\<open>active_tasks\<close>, \<^verbatim>\<open>current_thread\<close> and
  \<^verbatim>\<open>implicit_assumptions\<close> is never read, whatever its key and value are.  There is no
  test of the keys or values below these three.
\<close>

lemma map_of_filter_keys:
  "k \<in> set ks \<Longrightarrow> map_of (filter (\<lambda>(k', v). k' \<in> set ks) xs) k = map_of xs k"
  by (induction xs) auto

lemma py_get_filter_keys:
  "k \<in> set ks \<Longrightarrow> py_get (JDict (filter (\<lambda>(k', v). k' \<in> set ks) xs)) k dflt
     = py_get (JDict xs) k dflt"
  by (simp add: map_of_filter_keys)

lemma other_keys_are_not_read:
  "build_situational_elements lib
     (filter (\<lambda>(k, v). k \<in> set situational_keys) context) sig
   = build_situational_elements lib context sig"
proof -
  have k: "''active_tasks'' \<in> set situational_keys" "''current_thread'' \<in> set situational_keys"
    "''implicit_assumptions'' \<in> set situational_keys"
    by (simp_all add: situational_keys_def)
  show ?thesis
    unfolding build_situational_elements_def Let_def
    by (simp only: py_get_filter_keys[OF k(1)] py_get_filter_keys[OF k(2)]
          py_get_filter_keys[OF k(3)])
qed

lemma credentials_at_top_level:
  "compose lib MAX_CONTEXT_TOKENS MIN_RELEVANCE_SCORE ''What are my credentials?'' None None
     (Some credentials_context) SYSTEM_PROMPT
   = Inr \<lparr>system_context = [], user_message = ''What are my credentials?'',
          included_context = [], excluded_context = [], total_tokens = 0\<rparr>"
  by code_simp

end
